theory Spec2Isabelle
  imports Complex_Main
begin

section \<open>Double-precision values\<close>

text \<open>
  The code computes on C++ \<open>double\<close>, the binary64 format of IEEE 754. A \<open>double\<close> is a
  finite real number (\<open>Fin 0\<close> is the positive zero), the negative zero, one of the two
  infinities, or not-a-number. The operations \<open>+\<close>, \<open>-\<close>, \<open>*\<close>, \<open>/\<close> below give the result
  of IEEE 754 before it is rounded: the real result where there is one, and the sign of a
  zero, the infinities and not-a-number as the standard sets them (a non-zero value
  divided by a zero is the infinity whose sign is the product of the two signs). A
  comparison with not-a-number is false, and the two zeros are equal.
\<close>

datatype double = Fin real | NZero | PInf | NInf | NaN

instantiation double :: "{uminus, plus, minus, times, inverse, ord}"
begin

fun uminus_double :: "double \<Rightarrow> double" where
  "uminus_double (Fin a) = (if a = 0 then NZero else Fin (- a))"
| "uminus_double NZero = Fin 0"
| "uminus_double PInf = NInf"
| "uminus_double NInf = PInf"
| "uminus_double NaN = NaN"

fun plus_double :: "double \<Rightarrow> double \<Rightarrow> double" where
  "plus_double (Fin a) (Fin b) = Fin (a + b)"
| "plus_double (Fin a) NZero = Fin a"
| "plus_double NZero (Fin b) = Fin b"
| "plus_double NZero NZero = NZero"
| "plus_double NaN _ = NaN"
| "plus_double _ NaN = NaN"
| "plus_double PInf NInf = NaN"
| "plus_double NInf PInf = NaN"
| "plus_double PInf _ = PInf"
| "plus_double _ PInf = PInf"
| "plus_double NInf _ = NInf"
| "plus_double _ NInf = NInf"

definition minus_double :: "double \<Rightarrow> double \<Rightarrow> double" where
  "minus_double a b = a + (- b)"

fun times_double :: "double \<Rightarrow> double \<Rightarrow> double" where
  "times_double (Fin a) (Fin b) =
     (if a = 0 \<or> b = 0 then (if (a < 0) \<noteq> (b < 0) then NZero else Fin 0) else Fin (a * b))"
| "times_double (Fin a) NZero = (if a < 0 then Fin 0 else NZero)"
| "times_double NZero (Fin b) = (if b < 0 then Fin 0 else NZero)"
| "times_double NZero NZero = Fin 0"
| "times_double NaN _ = NaN"
| "times_double _ NaN = NaN"
| "times_double (Fin a) PInf = (if a = 0 then NaN else if 0 < a then PInf else NInf)"
| "times_double (Fin a) NInf = (if a = 0 then NaN else if 0 < a then NInf else PInf)"
| "times_double PInf (Fin b) = (if b = 0 then NaN else if 0 < b then PInf else NInf)"
| "times_double NInf (Fin b) = (if b = 0 then NaN else if 0 < b then NInf else PInf)"
| "times_double NZero _ = NaN"
| "times_double _ NZero = NaN"
| "times_double PInf PInf = PInf"
| "times_double NInf NInf = PInf"
| "times_double PInf NInf = NInf"
| "times_double NInf PInf = NInf"

fun divide_double :: "double \<Rightarrow> double \<Rightarrow> double" where
  "divide_double (Fin a) (Fin b) =
     (if b \<noteq> 0 then (if a = 0 then (if b < 0 then NZero else Fin 0) else Fin (a / b))
      else if 0 < a then PInf else if a < 0 then NInf else NaN)"
| "divide_double (Fin a) NZero = (if 0 < a then NInf else if a < 0 then PInf else NaN)"
| "divide_double NZero (Fin b) = (if b = 0 then NaN else if b < 0 then Fin 0 else NZero)"
| "divide_double NZero NZero = NaN"
| "divide_double NaN _ = NaN"
| "divide_double _ NaN = NaN"
| "divide_double (Fin a) PInf = (if a < 0 then NZero else Fin 0)"
| "divide_double (Fin a) NInf = (if a < 0 then Fin 0 else NZero)"
| "divide_double NZero PInf = NZero"
| "divide_double NZero NInf = Fin 0"
| "divide_double PInf (Fin b) = (if b < 0 then NInf else PInf)"
| "divide_double NInf (Fin b) = (if b < 0 then PInf else NInf)"
| "divide_double PInf NZero = NInf"
| "divide_double NInf NZero = PInf"
| "divide_double PInf PInf = NaN"
| "divide_double PInf NInf = NaN"
| "divide_double NInf PInf = NaN"
| "divide_double NInf NInf = NaN"

definition inverse_double :: "double \<Rightarrow> double" where
  "inverse_double a = divide (Fin 1) a"

fun less_eq_double :: "double \<Rightarrow> double \<Rightarrow> bool" where
  "less_eq_double (Fin a) (Fin b) = (a \<le> b)"
| "less_eq_double (Fin a) NZero = (a \<le> 0)"
| "less_eq_double NZero (Fin b) = (0 \<le> b)"
| "less_eq_double NZero NZero = True"
| "less_eq_double NaN _ = False"
| "less_eq_double _ NaN = False"
| "less_eq_double NInf _ = True"
| "less_eq_double _ PInf = True"
| "less_eq_double PInf _ = False"
| "less_eq_double _ NInf = False"

fun less_double :: "double \<Rightarrow> double \<Rightarrow> bool" where
  "less_double (Fin a) (Fin b) = (a < b)"
| "less_double (Fin a) NZero = (a < 0)"
| "less_double NZero (Fin b) = (0 < b)"
| "less_double NZero NZero = False"
| "less_double NaN _ = False"
| "less_double _ NaN = False"
| "less_double PInf _ = False"
| "less_double _ NInf = False"
| "less_double NInf _ = True"
| "less_double _ PInf = True"

instance ..

end

text \<open>\<open>std::sqrt\<close> and \<open>std::sin\<close> on a \<open>double\<close>, before rounding.\<close>

fun dsqrt :: "double \<Rightarrow> double" where
  "dsqrt (Fin a) = (if 0 \<le> a then Fin (sqrt a) else NaN)"
| "dsqrt NZero = NZero"
| "dsqrt PInf = PInf"
| "dsqrt NInf = NaN"
| "dsqrt NaN = NaN"

fun dsin :: "double \<Rightarrow> double" where
  "dsin (Fin a) = Fin (sin a)"
| "dsin NZero = NZero"
| "dsin _ = NaN"

fun is_finite :: "double \<Rightarrow> bool" where
  "is_finite (Fin a) = True"
| "is_finite NZero = True"
| "is_finite _ = False"

fun is_zero :: "double \<Rightarrow> bool" where
  "is_zero (Fin a) = (a = 0)"
| "is_zero NZero = True"
| "is_zero _ = False"

text \<open>
  Rounding to binary64, to the nearest value and to the even one of two nearest: a real
  \<open>x\<close> with \<open>2^e \<le> |x| < 2^(e+1)\<close> goes to the nearest multiple of \<open>2^(e-52)\<close>; below
  \<open>2^(-1022)\<close> the multiples are those of \<open>2^(-1074)\<close>; a result of magnitude \<open>2^1024\<close> or
  more is an infinity, and a result that rounds to nothing is a zero with the sign of \<open>x\<close>.
\<close>

definition pow2 :: "int \<Rightarrow> real" where
  "pow2 k = (if 0 \<le> k then 2 ^ nat k else 1 / 2 ^ nat (- k))"

definition rne :: "real \<Rightarrow> int" where
  "rne y = (let f = \<lfloor>y\<rfloor>; r = y - of_int f
            in if r < 1 / 2 then f else if 1 / 2 < r then f + 1
               else if even f then f else f + 1)"

definition round64 :: "real \<Rightarrow> double" where
  "round64 x =
     (if x = 0 then Fin 0
      else
        (let e = max \<lfloor>log 2 \<bar>x\<bar>\<rfloor> (- 1022);
             y = of_int (rne (x * pow2 (52 - e))) * pow2 (e - 52)
         in if pow2 1024 \<le> \<bar>y\<bar> then (if 0 < x then PInf else NInf)
            else if y = 0 then (if x < 0 then NZero else Fin 0)
            else Fin y))"

text \<open>
  The operations of the program: the IEEE result, rounded. The geometry of rays and faces
  is written with them. \<open>CheckBounds\<close> only halves and negates a size and compares, which
  is exact short of underflow, and the functions of \<open>AngularDist\<close> call \<open>std::sin\<close>, whose
  last digit the language does not fix; both are written with the operations above.
\<close>

fun fl :: "double \<Rightarrow> double" where
  "fl (Fin r) = round64 r"
| "fl d = d"

definition fadd :: "double \<Rightarrow> double \<Rightarrow> double" where
  "fadd a b = fl (a + b)"

definition fsub :: "double \<Rightarrow> double \<Rightarrow> double" where
  "fsub a b = fl (a - b)"

definition fmul :: "double \<Rightarrow> double \<Rightarrow> double" where
  "fmul a b = fl (a * b)"

definition fdiv :: "double \<Rightarrow> double \<Rightarrow> double" where
  "fdiv a b = fl (a / b)"

definition fsqrt :: "double \<Rightarrow> double" where
  "fsqrt a = fl (dsqrt a)"

text \<open>A real number that is a \<open>double\<close>: rounding leaves it as it is.\<close>

definition exact64 :: "real \<Rightarrow> bool" where
  "exact64 x = (round64 x = Fin x)"

section \<open>Vector3\<close>

text \<open>
  Modelled from the spec: the class \<open>Vector3\<close> is declared in a header that is not among
  the source files. The spec gives it three real-valued components (the code reads them as
  \<open>axis[0]\<close>, \<open>axis[1]\<close>, \<open>axis[2]\<close>) with sum, difference, multiplication by a scalar,
  dot product and Euclidean length. Every operation on components is a rounded operation on
  \<open>double\<close>; the dot product and the length sum the three products from left to right.
\<close>

datatype Vector3 = Vector3 (axis0: double) (axis1: double) (axis2: double)

instantiation Vector3 :: "{plus, minus}"
begin

fun plus_Vector3 :: "Vector3 \<Rightarrow> Vector3 \<Rightarrow> Vector3" where
  "plus_Vector3 (Vector3 a b c) (Vector3 x y z) = Vector3 (fadd a x) (fadd b y) (fadd c z)"

fun minus_Vector3 :: "Vector3 \<Rightarrow> Vector3 \<Rightarrow> Vector3" where
  "minus_Vector3 (Vector3 a b c) (Vector3 x y z) = Vector3 (fsub a x) (fsub b y) (fsub c z)"

instance ..

end

text \<open>\<open>v * k\<close> and \<open>v *= k\<close> of the source, a vector times a scalar.\<close>

fun vscale :: "Vector3 \<Rightarrow> double \<Rightarrow> Vector3" where
  "vscale (Vector3 a b c) k = Vector3 (fmul a k) (fmul b k) (fmul c k)"

fun Dot :: "Vector3 \<Rightarrow> Vector3 \<Rightarrow> double" where
  "Dot (Vector3 a b c) (Vector3 x y z) = fadd (fadd (fmul a x) (fmul b y)) (fmul c z)"

definition Length :: "Vector3 \<Rightarrow> double" where
  "Length v = fsqrt (Dot v v)"

text \<open>\<open>Dist3d\<close> of vandmc\_core.cpp.\<close>

definition Dist3d :: "Vector3 \<Rightarrow> Vector3 \<Rightarrow> double" where
  "Dist3d v1 v2 = Length (v2 - v1)"

definition fin_vec :: "real \<Rightarrow> real \<Rightarrow> real \<Rightarrow> Vector3" where
  "fin_vec x y z = Vector3 (Fin x) (Fin y) (Fin z)"

section \<open>Primitive\<close>

text \<open>
  The fields of \<open>Primitive\<close> that the intersection code reads or writes. \<open>GlobalFace\<close> is
  an array of six vectors in the source; it is a function of the index here, and only the
  indices 0 to 5 are ever written.
\<close>

record Primitive =
  position :: Vector3
  detX :: Vector3
  detY :: Vector3
  detZ :: Vector3
  length_prim :: double
  width :: double
  depth :: double
  need_set :: bool
  GlobalFace :: "nat \<Rightarrow> Vector3"

text \<open>\<open>Primitive::_set_face_coords\<close>.\<close>

definition set_face_coords :: "Primitive \<Rightarrow> Primitive" where
  "set_face_coords p =
     p\<lparr>GlobalFace := (GlobalFace p)
          (0 := position p - vscale (detZ p) (fdiv (depth p) (Fin 2)),
           1 := position p + vscale (detX p) (fdiv (width p) (Fin 2)),
           2 := position p + vscale (detZ p) (fdiv (depth p) (Fin 2)),
           3 := position p - vscale (detX p) (fdiv (width p) (Fin 2)),
           4 := position p + vscale (detY p) (fdiv (length_prim p) (Fin 2)),
           5 := position p - vscale (detY p) (fdiv (length_prim p) (Fin 2))),
       need_set := False\<rparr>"

text \<open>\<open>Primitive::GetUnitVector\<close>.\<close>

definition GetUnitVector :: "Primitive \<Rightarrow> nat \<Rightarrow> Vector3" where
  "GetUnitVector p face =
     (if face = 0 then detZ p
      else if face = 1 then detX p
      else if face = 2 then vscale (detZ p) (Fin (- 1))
      else if face = 3 then vscale (detX p) (Fin (- 1))
      else if face = 4 then detY p
      else if face = 5 then vscale (detY p) (Fin (- 1))
      else Vector3 (Fin 0) (Fin 0) (Fin 0))"

text \<open>\<open>Primitive::GetLocalCoords\<close>.\<close>

definition GetLocalCoords :: "Primitive \<Rightarrow> Vector3 \<Rightarrow> double \<times> double \<times> double" where
  "GetLocalCoords p world_coords =
     (let temp = world_coords - position p
      in (Dot temp (detX p), Dot temp (detY p), Dot temp (detZ p)))"

text \<open>\<open>Primitive::CheckBounds\<close>.\<close>

definition CheckBounds :: "Primitive \<Rightarrow> nat \<Rightarrow> double \<Rightarrow> double \<Rightarrow> double \<Rightarrow> bool" where
  "CheckBounds p face x y z =
     (if face = 0 \<or> face = 2 then
        (- width p / Fin 2 \<le> x \<and> x \<le> width p / Fin 2) \<and>
        (- length_prim p / Fin 2 \<le> y \<and> y \<le> length_prim p / Fin 2)
      else if face = 1 \<or> face = 3 then
        (- depth p / Fin 2 \<le> z \<and> z \<le> depth p / Fin 2) \<and>
        (- length_prim p / Fin 2 \<le> y \<and> y \<le> length_prim p / Fin 2)
      else if face = 4 \<or> face = 5 then
        (- width p / Fin 2 \<le> x \<and> x \<le> width p / Fin 2) \<and>
        (- depth p / Fin 2 \<le> z \<and> z \<le> depth p / Fin 2)
      else False)"

text \<open>
  \<open>Primitive::PlaneIntersect\<close>. The face coordinates are refreshed when \<open>need_set\<close> is
  on, so the primitive is returned with the truth value and the point \<open>P\<close>. The source
  has no test of the denominator (the two lines that had one are commented out).
\<close>

definition PlaneIntersect ::
  "Primitive \<Rightarrow> Vector3 \<Rightarrow> Vector3 \<Rightarrow> nat \<Rightarrow> Primitive \<times> bool \<times> Vector3" where
  "PlaneIntersect p offset direction face =
     (let p' = (if need_set p then set_face_coords p else p);
          unit = GetUnitVector p' face;
          t = fdiv (fsub (Dot (GlobalFace p' face) unit) (Dot offset unit)) (Dot direction unit);
          P = offset + vscale direction t
      in (p', Fin 0 \<le> t, P))"

text \<open>
  The reference parameters that \<open>Primitive::IntersectPrimitive\<close> writes: the caller's
  variables go in and come out. The parameter \<open>norm\<close> is never written and is left out.
\<close>

record hit =
  P1 :: Vector3
  P2 :: Vector3
  face1 :: int
  face2 :: int
  px :: double
  py :: double
  pz :: double

text \<open>
  The body of the loop over the faces, for the face \<open>i\<close>, on the primitive, the face
  count and the caller's variables. The call of \<open>GetUnitVector\<close> that opens the body
  sets a local variable that the body does not read, and is left out.
\<close>

definition intersect_face ::
  "Vector3 \<Rightarrow> Vector3 \<Rightarrow> nat \<Rightarrow> Primitive \<times> int \<times> hit \<Rightarrow> Primitive \<times> int \<times> hit" where
  "intersect_face offset direction i st =
     (case st of (p, face_count, h) \<Rightarrow>
        (case PlaneIntersect p offset direction i of (p', ok, ray) \<Rightarrow>
           if ok then
             (case GetLocalCoords p' ray of (px2, py2, pz2) \<Rightarrow>
                if CheckBounds p' i px2 py2 pz2 then
                  (if face_count = 0 then
                     (p', face_count + 1,
                      h\<lparr>px := px2, py := py2, pz := pz2, P1 := ray, face1 := int i\<rparr>)
                   else if face_count = 1 then
                     (let h' = h\<lparr>P2 := ray, face2 := int i\<rparr>
                      in (p', face_count + 1,
                          if Length (P2 h') < Length (P1 h')
                          then h'\<lparr>px := px2, py := py2, pz := pz2\<rparr> else h'))
                   else (p', face_count + 1, h))
                else (p', face_count, h))
           else (p', face_count, h)))"

function intersect_loop ::
  "Vector3 \<Rightarrow> Vector3 \<Rightarrow> nat \<Rightarrow> Primitive \<times> int \<times> hit \<Rightarrow> Primitive \<times> int \<times> hit" where
  "intersect_loop offset direction i st =
     (if i < 6 then intersect_loop offset direction (Suc i) (intersect_face offset direction i st)
      else st)"
  by pat_completeness auto
termination
  by (relation "measure (\<lambda>(offset, direction, i, st). 6 - i)") auto

declare intersect_loop.simps [simp del]

text \<open>\<open>Primitive::IntersectPrimitive\<close>.\<close>

definition IntersectPrimitive ::
  "Primitive \<Rightarrow> Vector3 \<Rightarrow> Vector3 \<Rightarrow> hit \<Rightarrow> Primitive \<times> bool \<times> hit" where
  "IntersectPrimitive p offset direction h =
     (let p0 = (if need_set p then set_face_coords p else p)
      in case intersect_loop offset direction 0 (p0, 0, h) of
           (p', face_count, h') \<Rightarrow> (p', 0 < face_count, h'))"

text \<open>
  The test that the loop makes of one face: the plane of the face is met at a parameter
  that is not negative, and the point passes the bounds test of the face.
\<close>

definition face_struck :: "Primitive \<Rightarrow> Vector3 \<Rightarrow> Vector3 \<Rightarrow> nat \<Rightarrow> bool" where
  "face_struck p offset direction i =
     (case PlaneIntersect p offset direction i of (p', ok, ray) \<Rightarrow>
        ok \<and> (case GetLocalCoords p' ray of (x, y, z) \<Rightarrow> CheckBounds p' i x y z))"

text \<open>The point at which \<open>PlaneIntersect\<close> puts the ray on the plane of a face.\<close>

definition plane_point :: "Primitive \<Rightarrow> Vector3 \<Rightarrow> Vector3 \<Rightarrow> nat \<Rightarrow> Vector3" where
  "plane_point p offset direction i = snd (snd (PlaneIntersect p offset direction i))"

text \<open>
  The intersection test in the words of the specification, in the arithmetic of the
  program. The faces 0 and 2 are the two faces across local Z, 1 and 3 those across local
  X, 4 and 5 those across local Y. Each face has a unit normal and a centre, half an
  extent away from the centre of the primitive. The ray parameter \<open>t\<close> of a face solves
  the equation of the plane through the centre with that normal; the crossing point is
  taken to the local frame by dot products against the local axes, and it is tested
  against the two other extents, halved, with inclusive bounds.
\<close>

definition face_normal :: "Primitive \<Rightarrow> nat \<Rightarrow> Vector3" where
  "face_normal p i =
     [detZ p, detX p, vscale (detZ p) (Fin (- 1)), vscale (detX p) (Fin (- 1)),
      detY p, vscale (detY p) (Fin (- 1))] ! i"

definition face_centre :: "Primitive \<Rightarrow> nat \<Rightarrow> Vector3" where
  "face_centre p i =
     [position p - vscale (detZ p) (fdiv (depth p) (Fin 2)),
      position p + vscale (detX p) (fdiv (width p) (Fin 2)),
      position p + vscale (detZ p) (fdiv (depth p) (Fin 2)),
      position p - vscale (detX p) (fdiv (width p) (Fin 2)),
      position p + vscale (detY p) (fdiv (length_prim p) (Fin 2)),
      position p - vscale (detY p) (fdiv (length_prim p) (Fin 2))] ! i"

definition inside :: "double \<Rightarrow> double \<Rightarrow> bool" where
  "inside extent x = (- (extent / Fin 2) \<le> x \<and> x \<le> extent / Fin 2)"

definition face_crossed :: "Primitive \<Rightarrow> Vector3 \<Rightarrow> Vector3 \<Rightarrow> nat \<Rightarrow> bool" where
  "face_crossed p offset direction i =
     (let n = face_normal p i;
          c = face_centre p i;
          t = fdiv (fsub (Dot c n) (Dot offset n)) (Dot direction n);
          r = offset + vscale direction t - position p;
          x = Dot r (detX p);
          y = Dot r (detY p);
          z = Dot r (detZ p)
      in Fin 0 \<le> t \<and>
         (if i = 0 \<or> i = 2 then inside (width p) x \<and> inside (length_prim p) y
          else if i = 1 \<or> i = 3 then inside (depth p) z \<and> inside (length_prim p) y
          else inside (width p) x \<and> inside (depth p) z))"

text \<open>
  The same test in exact real arithmetic, on the real numbers that the coordinates and
  the sizes of a primitive and of a ray stand for when they are finite: the ray crosses
  the plane of a face when it is not parallel to it, at the parameter \<open>t\<close>; the face is
  struck within bounds when \<open>t \<ge> 0\<close> and the crossing point lies inside the rectangle.
\<close>

fun real_of :: "double \<Rightarrow> real" where
  "real_of (Fin a) = a"
| "real_of _ = 0"

type_synonym point = "real \<times> real \<times> real"

definition point_of :: "Vector3 \<Rightarrow> point" where
  "point_of v = (real_of (axis0 v), real_of (axis1 v), real_of (axis2 v))"

fun dot_exact :: "point \<Rightarrow> point \<Rightarrow> real" where
  "dot_exact (a, b, c) (x, y, z) = a * x + b * y + c * z"

fun along :: "point \<Rightarrow> real \<Rightarrow> point \<Rightarrow> point" where
  "along (a, b, c) t (x, y, z) = (a + t * x, b + t * y, c + t * z)"

definition face_axis :: "Primitive \<Rightarrow> nat \<Rightarrow> point" where
  "face_axis p i =
     point_of (if i = 0 \<or> i = 2 then detZ p else if i = 1 \<or> i = 3 then detX p else detY p)"

definition face_shift :: "Primitive \<Rightarrow> nat \<Rightarrow> real" where
  "face_shift p i =
     [- real_of (depth p) / 2, real_of (width p) / 2, real_of (depth p) / 2,
      - real_of (width p) / 2, real_of (length_prim p) / 2, - real_of (length_prim p) / 2] ! i"

definition face_struck_exact :: "Primitive \<Rightarrow> Vector3 \<Rightarrow> Vector3 \<Rightarrow> nat \<Rightarrow> bool" where
  "face_struck_exact p offset direction i =
     (let n = face_axis p i;
          c = along (point_of (position p)) (face_shift p i) n;
          den = dot_exact (point_of direction) n
      in den \<noteq> 0 \<and>
         (let t = (dot_exact c n - dot_exact (point_of offset) n) / den;
              r = along (along (point_of offset) t (point_of direction)) (- 1)
                    (point_of (position p));
              x = dot_exact r (point_of (detX p));
              y = dot_exact r (point_of (detY p));
              z = dot_exact r (point_of (detZ p))
          in 0 \<le> t \<and>
             (if i = 0 \<or> i = 2 then
                \<bar>x\<bar> \<le> real_of (width p) / 2 \<and> \<bar>y\<bar> \<le> real_of (length_prim p) / 2
              else if i = 1 \<or> i = 3 then
                \<bar>z\<bar> \<le> real_of (depth p) / 2 \<and> \<bar>y\<bar> \<le> real_of (length_prim p) / 2
              else \<bar>x\<bar> \<le> real_of (width p) / 2 \<and> \<bar>z\<bar> \<le> real_of (depth p) / 2)))"

definition geometric_hit :: "Primitive \<Rightarrow> Vector3 \<Rightarrow> Vector3 \<Rightarrow> bool" where
  "geometric_hit p offset direction = list_ex (face_struck_exact p offset direction) [0..<6]"

text \<open>
  The primitives of the theorems: a vector with finite components, and a primitive whose
  cached face centres are either due for a refresh or those of the table above.
\<close>

definition finite_vec :: "Vector3 \<Rightarrow> bool" where
  "finite_vec v = (is_finite (axis0 v) \<and> is_finite (axis1 v) \<and> is_finite (axis2 v))"

definition face_coords_ok :: "Primitive \<Rightarrow> bool" where
  "face_coords_ok p = (need_set p \<or> list_all (\<lambda>i. GlobalFace p i = face_centre p i) [0..<6])"

text \<open>
  A finite \<open>double\<close> whose value lies between two integers, and a vector whose first two
  components are zeros and whose third component lies between two integers.
\<close>

definition in_range :: "int \<Rightarrow> int \<Rightarrow> double \<Rightarrow> bool" where
  "in_range m n d = (is_finite d \<and> of_int m \<le> real_of d \<and> real_of d \<le> of_int n)"

definition zvec :: "int \<Rightarrow> int \<Rightarrow> Vector3 \<Rightarrow> bool" where
  "zvec m n v = (in_range 0 0 (axis0 v) \<and> in_range 0 0 (axis1 v) \<and> in_range m n (axis2 v))"

text \<open>
  The state of a \<open>Primitive\<close> after its default constructor (unit axes, \<open>need_set\<close> on),
  moved to a position and given a size. The face centres are not computed at that point;
  they are zero vectors here, and they are overwritten before they are read.
\<close>

definition box :: "Vector3 \<Rightarrow> double \<Rightarrow> double \<Rightarrow> double \<Rightarrow> Primitive" where
  "box pos l w d =
     \<lparr>position = pos, detX = fin_vec 1 0 0, detY = fin_vec 0 1 0, detZ = fin_vec 0 0 1,
      length_prim = l, width = w, depth = d, need_set = True,
      GlobalFace = (\<lambda>i. fin_vec 0 0 0)\<rparr>"

text \<open>The caller's variables before the call, all zero.\<close>

definition hit0 :: hit where
  "hit0 = \<lparr>P1 = fin_vec 0 0 0, P2 = fin_vec 0 0 0, face1 = 0, face2 = 0,
            px = Fin 0, py = Fin 0, pz = Fin 0\<rparr>"

text \<open>
  Three notions for the proofs: a vector with no finite component; the update that the loop
  body makes of the face count and of the caller's variables when the face \<open>i\<close> is struck;
  and the primitive after the refresh that opens \<open>PlaneIntersect\<close> and \<open>IntersectPrimitive\<close>.
\<close>

definition nonfinite_vec :: "Vector3 \<Rightarrow> bool" where
  "nonfinite_vec v = (\<not> is_finite (axis0 v) \<and> \<not> is_finite (axis1 v) \<and> \<not> is_finite (axis2 v))"

definition register_hit :: "Primitive \<Rightarrow> Vector3 \<Rightarrow> Vector3 \<Rightarrow> int \<times> hit \<Rightarrow> nat \<Rightarrow> int \<times> hit" where
  "register_hit p offset direction st i =
     (case st of (face_count, h) \<Rightarrow>
        (let ray = plane_point p offset direction i in
         case GetLocalCoords p ray of (px2, py2, pz2) \<Rightarrow>
           if face_count = 0 then
             (face_count + 1, h\<lparr>px := px2, py := py2, pz := pz2, P1 := ray, face1 := int i\<rparr>)
           else if face_count = 1 then
             (let h' = h\<lparr>P2 := ray, face2 := int i\<rparr>
              in (face_count + 1,
                  if Length (P2 h') < Length (P1 h')
                  then h'\<lparr>px := px2, py := py2, pz := pz2\<rparr> else h'))
           else (face_count + 1, h)))"

definition refreshed :: "Primitive \<Rightarrow> Primitive" where
  "refreshed p = (if need_set p then set_face_coords p else p)"

section \<open>AngularDist\<close>

text \<open>The constants \<open>pi\<close> and \<open>deg2rad\<close> of vandmc\_core.cpp.\<close>

definition pi_c :: double where
  "pi_c = Fin 3.1415926540"

definition deg2rad :: double where
  "deg2rad = pi_c / Fin 180.0"

text \<open>
  The fields of \<open>AngularDist\<close>. The three arrays are lists, the empty list standing for the
  null pointer (no array of length zero is ever allocated). The counter \<open>num_points\<close> is an
  \<open>unsigned int\<close>, modelled as a natural number: files of \<open>2^32\<close> points are not considered.
\<close>

record AngularDist =
  reaction_xsection :: double
  rate :: double
  num_points :: nat
  init :: bool
  com_theta :: "double list"
  dsigma_domega :: "double list"
  integral :: "double list"

text \<open>The default constructor. It does not set \<open>rate\<close>, whose value is a parameter.\<close>

definition AngularDist_new :: "double \<Rightarrow> AngularDist" where
  "AngularDist_new r =
     \<lparr>reaction_xsection = Fin 0, rate = r, num_points = 0, init = False,
      com_theta = [], dsigma_domega = [], integral = []\<rparr>"

text \<open>
  \<open>new double[n]\<close>: an array of \<open>n\<close> cells whose contents are whatever the memory holds,
  here the values of a function given from outside.
\<close>

definition new_array :: "(nat \<Rightarrow> double) \<Rightarrow> nat \<Rightarrow> double list" where
  "new_array mem n = map mem [0..<n]"

text \<open>
  The loop that reads the file. The file is given by what the loop extracts from it: the
  pairs \<open>x\<close>, \<open>y\<close> read before the stream reports its end. Each pair goes to the two
  vectors, and the member \<open>num_points\<close> is counted up from the value that it has at the call.
  A file with a token that is not a number, on which the stream never reports its end, is
  not covered.
\<close>

fun read_pairs ::
  "(double \<times> double) list \<Rightarrow> double list \<times> double list \<times> nat \<Rightarrow> double list \<times> double list \<times> nat" where
  "read_pairs [] st = st"
| "read_pairs ((x, y) # rest) (xvec, yvec, n) = read_pairs rest (xvec @ [x], yvec @ [y], n + 1)"

text \<open>The loop of the file overload that copies the two vectors into the arrays.\<close>

fun load_vectors ::
  "double list \<Rightarrow> double list \<Rightarrow> nat \<Rightarrow> double list \<times> double list \<Rightarrow> double list \<times> double list" where
  "load_vectors (x # xs) (y # ys) index (ct, dd) =
     load_vectors xs ys (index + 1) (ct[index := x * deg2rad], dd[index := y])"
| "load_vectors _ _ _ st = st"

text \<open>
  The loop of the array overload that copies the caller's arrays. The two pointers give
  access to the cells behind them, so they are functions of the index.
\<close>

function load_arrays ::
  "nat \<Rightarrow> nat \<Rightarrow> (nat \<Rightarrow> double) \<Rightarrow> (nat \<Rightarrow> double) \<Rightarrow> double list \<times> double list \<Rightarrow>
     double list \<times> double list" where
  "load_arrays i n angle xsection (ct, dd) =
     (if i < n then
        load_arrays (i + 1) n angle xsection (ct[i := angle i * deg2rad], dd[i := xsection i])
      else (ct, dd))"
  by pat_completeness auto
termination
  by (relation "measure (\<lambda>(i, n, angle, xsection, st). n - i)") auto

declare load_arrays.simps [simp del]

text \<open>
  The loop that integrates the differential cross-section, the same text in both
  overloads: it adds one trapezoid to \<open>reaction_xsection\<close> and stores the running value.
\<close>

function integrate ::
  "nat \<Rightarrow> nat \<Rightarrow> double list \<Rightarrow> double list \<Rightarrow> double \<times> double list \<Rightarrow> double \<times> double list" where
  "integrate i n ct dd (rx, integ) =
     (if i < n - 1 then
        (let x1 = ct ! i; y1 = dd ! i * dsin x1;
             x2 = ct ! (i + 1); y2 = dd ! (i + 1) * dsin x2;
             rx' = rx + Fin 0.5 * (x2 - x1) * (y2 + y1) * Fin 2 * pi_c
         in integrate (i + 1) n ct dd (rx', integ[i + 1 := rx']))
      else (rx, integ))"
  by pat_completeness auto
termination
  by (relation "measure (\<lambda>(i, n, ct, dd, st). n - 1 - i)") auto

declare integrate.simps [simp del]

text \<open>
  \<open>AngularDist::Initialize(const char*, const double&, Target*)\<close>. The file is \<open>None\<close>
  when the stream is not good after it is opened. The target is \<open>None\<close> for a null pointer
  and otherwise the value of \<open>GetNumberDensity()\<close>. \<open>mem\<close> gives the contents of the three
  new arrays.
\<close>

definition Initialize_file ::
  "AngularDist \<Rightarrow> (double \<times> double) list option \<Rightarrow> double \<Rightarrow> double option \<Rightarrow>
     (nat \<Rightarrow> nat \<Rightarrow> double) \<Rightarrow> bool \<times> AngularDist" where
  "Initialize_file a file beam_intensity targ mem =
     (if init a then (False, a)
      else case file of
        None \<Rightarrow> (False, a)
      | Some pairs \<Rightarrow>
          (case read_pairs pairs ([], [], num_points a) of (xvec, yvec, n) \<Rightarrow>
             if 1 < n then
               (let ct0 = new_array (mem 0) n;
                    dd0 = new_array (mem 1) n;
                    in0 = new_array (mem 2) n;
                    (ct, dd) = load_vectors xvec yvec 0 (ct0, dd0);
                    (rx, integ) = integrate 0 n ct dd (Fin 0, in0[0 := Fin 0]);
                    r = (case targ of None \<Rightarrow> Fin 0
                         | Some density \<Rightarrow> rx * Fin (1 / 10 ^ 27) * beam_intensity * density)
                in (True, a\<lparr>reaction_xsection := rx, rate := r, num_points := n, init := True,
                             com_theta := ct, dsigma_domega := dd, integral := integ\<rparr>))
             else (False, a\<lparr>num_points := n\<rparr>)))"

text \<open>\<open>AngularDist::Initialize(const unsigned int&, double*, double*, const double&, Target*)\<close>.\<close>

definition Initialize_arrays ::
  "AngularDist \<Rightarrow> nat \<Rightarrow> (nat \<Rightarrow> double) \<Rightarrow> (nat \<Rightarrow> double) \<Rightarrow> double \<Rightarrow> double option \<Rightarrow>
     (nat \<Rightarrow> nat \<Rightarrow> double) \<Rightarrow> bool \<times> AngularDist" where
  "Initialize_arrays a num_points_in angle xsection beam_intensity targ mem =
     (if init a \<or> num_points_in \<le> 1 then (False, a)
      else
        (let n = num_points_in;
             ct0 = new_array (mem 0) n;
             dd0 = new_array (mem 1) n;
             in0 = new_array (mem 2) n;
             (ct, dd) = load_arrays 0 n angle xsection (ct0, dd0);
             (rx, integ) = integrate 0 n ct dd (Fin 0, in0[0 := Fin 0]);
             r = (case targ of None \<Rightarrow> Fin 0
                  | Some density \<Rightarrow> rx * beam_intensity * density)
         in (True, a\<lparr>reaction_xsection := rx, rate := r, num_points := n, init := True,
                      com_theta := ct, dsigma_domega := dd, integral := integ\<rparr>)))"

text \<open>\<open>AngularDist::Initialize(const double&)\<close>, the isotropic distribution.\<close>

definition Initialize_isotropic :: "AngularDist \<Rightarrow> double \<Rightarrow> bool \<times> AngularDist" where
  "Initialize_isotropic a xsection =
     (if init a \<or> xsection \<le> Fin 0 then (False, a)
      else (True, a\<lparr>reaction_xsection := xsection, rate := Fin 0, init := True\<rparr>))"

text \<open>The three overloads as one operation on a call.\<close>

datatype init_call =
    FromFile "(double \<times> double) list option" double "double option"
  | FromArrays nat "nat \<Rightarrow> double" "nat \<Rightarrow> double" double "double option"
  | Isotropic double

fun Initialize :: "AngularDist \<Rightarrow> init_call \<Rightarrow> (nat \<Rightarrow> nat \<Rightarrow> double) \<Rightarrow> bool \<times> AngularDist" where
  "Initialize a (FromFile file beam_intensity targ) mem =
     Initialize_file a file beam_intensity targ mem"
| "Initialize a (FromArrays n angle xsection beam_intensity targ) mem =
     Initialize_arrays a n angle xsection beam_intensity targ mem"
| "Initialize a (Isotropic xsection) mem = Initialize_isotropic a xsection"

text \<open>
  A run of calls of \<open>Initialize\<close> none of which succeeds: the state after the last one, or
  \<open>None\<close> when one of the calls returns true.
\<close>

fun after_failed ::
  "AngularDist \<Rightarrow> (init_call \<times> (nat \<Rightarrow> nat \<Rightarrow> double)) list \<Rightarrow> AngularDist option" where
  "after_failed a [] = Some a"
| "after_failed a ((c, mem) # cs) =
     (case Initialize a c mem of
        (True, a') \<Rightarrow> None
      | (False, a') \<Rightarrow> after_failed a' cs)"

text \<open>
  \<open>frand()\<close>: the generator is the sequence of the values that it is going to return.
\<close>

definition frand :: "(nat \<Rightarrow> double) \<Rightarrow> double \<times> (nat \<Rightarrow> double)" where
  "frand rng = (rng 0, \<lambda>n. rng (Suc n))"

text \<open>The search loop of \<open>AngularDist::Sample\<close>; \<open>None\<close> when no bin holds the value.\<close>

function sample_loop :: "nat \<Rightarrow> AngularDist \<Rightarrow> double \<Rightarrow> double option" where
  "sample_loop i a rand_xsect =
     (if i < num_points a - 1 then
        (if integral a ! i \<le> rand_xsect \<and> rand_xsect \<le> integral a ! (i + 1) then
           Some (com_theta a ! i +
                 (rand_xsect - integral a ! i) * (com_theta a ! (i + 1) - com_theta a ! i) /
                   (integral a ! (i + 1) - integral a ! i))
         else sample_loop (i + 1) a rand_xsect)
      else None)"
  by pat_completeness auto
termination
  by (relation "measure (\<lambda>(i, a, rand_xsect). num_points a - 1 - i)") auto

declare sample_loop.simps [simp del]

text \<open>\<open>AngularDist::Sample\<close>.\<close>

definition Sample :: "AngularDist \<Rightarrow> (nat \<Rightarrow> double) \<Rightarrow> double \<times> (nat \<Rightarrow> double)" where
  "Sample a rng =
     (if \<not> init a then (Fin (- 1), rng)
      else if 0 < num_points a then
        (case frand rng of (r, rng') \<Rightarrow>
           (case sample_loop 0 a (r * reaction_xsection a) of
              Some theta \<Rightarrow> (theta, rng')
            | None \<Rightarrow> (Fin (- 1), rng')))
      else (case frand rng of (r, rng') \<Rightarrow> (r * pi_c, rng')))"

text \<open>
  The trapezoidal rule in the words of the specification: the term of the bin \<open>i\<close> for
  angles \<open>theta\<close> in radians and cross-sections \<open>ds\<close>, and the sum of the terms of the
  first \<open>k\<close> bins.
\<close>

definition trapezoid :: "(nat \<Rightarrow> double) \<Rightarrow> (nat \<Rightarrow> double) \<Rightarrow> nat \<Rightarrow> double" where
  "trapezoid theta ds i =
     Fin 0.5 * (theta (i + 1) - theta i) *
       (ds (i + 1) * dsin (theta (i + 1)) + ds i * dsin (theta i)) * Fin 2 * pi_c"

fun trapezoid_sum :: "(nat \<Rightarrow> double) \<Rightarrow> (nat \<Rightarrow> double) \<Rightarrow> nat \<Rightarrow> double" where
  "trapezoid_sum theta ds 0 = Fin 0"
| "trapezoid_sum theta ds (Suc k) = trapezoid_sum theta ds k + trapezoid theta ds k"

section \<open>RegularPolygon\<close>

fun dcos :: "double \<Rightarrow> double" where
  "dcos (Fin a) = Fin (cos a)"
| "dcos NZero = Fin 1"
| "dcos _ = NaN"

text \<open>
  Modelled from the spec: the class \<open>Line\<close> is declared in a header that is not among the
  source files; the code gives it the two end points, the direction and the length. The
  state of a default-constructed \<open>Line\<close> is a parameter, and the constructor of \<open>Vector3\<close>
  with two arguments is taken to leave the third component at zero.
\<close>

record Line =
  p1 :: Vector3
  p2 :: Vector3
  dir :: Vector3
  line_length :: double

record RegularPolygon =
  nSides :: nat
  sector :: double
  radius :: double
  chord_length :: double
  lines :: "Line list"
  init_poly :: bool

text \<open>The loop of \<open>RegularPolygon::Initialize\<close> over the sides.\<close>

function polygon_loop ::
  "nat \<Rightarrow> nat \<Rightarrow> double \<Rightarrow> double \<Rightarrow> double \<times> Line list \<Rightarrow> double \<times> Line list" where
  "polygon_loop side n r s (theta, ls) =
     (if side < n then
        (let l1 = (ls ! side)\<lparr>p1 := Vector3 (r * dcos theta) (r * dsin theta) (Fin 0)\<rparr>;
             theta' = theta + s;
             l2 = l1\<lparr>p2 := Vector3 (r * dcos theta') (r * dsin theta') (Fin 0)\<rparr>;
             l3 = l2\<lparr>dir := p2 l2 - p1 l2\<rparr>
         in polygon_loop (side + 1) n r s (theta', ls[side := l3]))
      else (theta, ls))"
  by pat_completeness auto
termination
  by (relation "measure (\<lambda>(side, n, r, s, st). n - side)") auto

declare polygon_loop.simps [simp del]

text \<open>\<open>RegularPolygon::Initialize\<close>.\<close>

definition RegularPolygon_Initialize ::
  "RegularPolygon \<Rightarrow> double \<Rightarrow> nat \<Rightarrow> Line \<Rightarrow> bool \<times> RegularPolygon" where
  "RegularPolygon_Initialize poly radius_in nSides_in default_line =
     (if init_poly poly then (False, poly)
      else
        (let s = Fin 2 * pi_c / Fin (real nSides_in);
             r = radius_in / dcos (s / Fin 2);
             c = Fin 2 * r * dsin (s / Fin 2);
             (theta, ls) = polygon_loop 0 nSides_in r s (- s / Fin 2, replicate nSides_in default_line)
         in (True, poly\<lparr>nSides := nSides_in, sector := s, radius := r, chord_length := c,
                         lines := ls, init_poly := True\<rparr>)))"

text \<open>The default constructor of \<open>RegularPolygon\<close>; \<open>lines\<close> is the null pointer.\<close>

definition RegularPolygon_new :: RegularPolygon where
  "RegularPolygon_new =
     \<lparr>nSides = 0, sector = Fin 0, radius = Fin 0, chord_length = Fin 0, lines = [],
      init_poly = False\<rparr>"

section \<open>Notions for the theorems\<close>

text \<open>
  What the specification says of an \<open>AngularDist\<close> after a tabulated \<open>Initialize\<close> on \<open>n\<close>
  points with angles \<open>angle\<close> in degrees and cross-sections \<open>ds\<close>: the angles are stored
  in radians, the cumulative array holds the partial sums of the trapezoidal rule, starting
  with zero, and the reaction cross-section is the sum over all the \<open>n - 1\<close> bins.
\<close>

definition tabulated_state ::
  "AngularDist \<Rightarrow> nat \<Rightarrow> (nat \<Rightarrow> double) \<Rightarrow> (nat \<Rightarrow> double) \<Rightarrow> bool" where
  "tabulated_state a n angle ds =
     (num_points a = n \<and>
      com_theta a = map (\<lambda>i. angle i * deg2rad) [0..<n] \<and>
      dsigma_domega a = map ds [0..<n] \<and>
      integral a = map (trapezoid_sum (\<lambda>i. angle i * deg2rad) ds) [0..<n] \<and>
      reaction_xsection a = trapezoid_sum (\<lambda>i. angle i * deg2rad) ds (n - 1))"

text \<open>The two columns of a list of pairs, as the arrays that a caller would pass.\<close>

definition column_x :: "(double \<times> double) list \<Rightarrow> nat \<Rightarrow> double" where
  "column_x pairs i = fst (pairs ! i)"

definition column_y :: "(double \<times> double) list \<Rightarrow> nat \<Rightarrow> double" where
  "column_y pairs i = snd (pairs ! i)"

text \<open>Data for the examples: memory that holds zeros, a generator, a line, two files.\<close>

definition zero_mem :: "nat \<Rightarrow> nat \<Rightarrow> double" where
  "zero_mem k i = Fin 0"

definition half_rng :: "nat \<Rightarrow> double" where
  "half_rng i = Fin 0.5"

definition Line_new :: Line where
  "Line_new = \<lparr>p1 = fin_vec 0 0 0, p2 = fin_vec 0 0 0, dir = fin_vec 0 0 0, line_length = Fin 0\<rparr>"

definition one_point :: "(double \<times> double) list" where
  "one_point = [(Fin 10, Fin 1)]"

definition two_points :: "(double \<times> double) list" where
  "two_points = [(Fin 0, Fin 1), (Fin 90, Fin 1)]"

section \<open>Lemmas on rounding\<close>

lemma pow2_pos [simp]: "0 < pow2 k"
  by (simp add: pow2_def)

lemma pow2_abs [simp]: "\<bar>pow2 k\<bar> = pow2 k"
  by (simp add: pow2_def)

lemma pow2_nonneg [simp]: "0 \<le> pow2 k"
  by (simp add: pow2_def)

lemma pow2_powr: "pow2 k = 2 powr (of_int k)"
proof (cases "0 \<le> k")
  case True
  then have "2 powr (of_int k) = (2::real) powr (real (nat k))" by simp
  also have "\<dots> = 2 ^ nat k" by (simp add: powr_realpow)
  finally show ?thesis using True by (simp add: pow2_def)
next
  case False
  then have "2 powr (of_int k) = (2::real) powr (- real (nat (- k)))" by simp
  also have "\<dots> = 1 / 2 ^ nat (- k)" by (simp add: powr_minus powr_realpow divide_inverse)
  finally show ?thesis using False by (simp add: pow2_def)
qed

lemma pow2_neq0 [simp]: "pow2 k \<noteq> 0"
  by (simp add: pow2_def)

lemma pow2_less: "j < k \<Longrightarrow> pow2 j < pow2 k"
  unfolding pow2_powr by (intro powr_less_mono) auto

lemma pow2_add: "pow2 (j + k) = pow2 j * pow2 k"
  by (simp add: pow2_powr powr_add)

lemma floor_log2:
  assumes "pow2 k \<le> \<bar>x\<bar>" and "\<bar>x\<bar> < pow2 (k + 1)"
  shows "\<lfloor>log 2 \<bar>x\<bar>\<rfloor> = k"
proof -
  have pos: "0 < \<bar>x\<bar>" using assms(1) pow2_pos [of k] by linarith
  have "of_int k \<le> log 2 \<bar>x\<bar>"
    using assms(1) pos by (simp add: le_log_iff pow2_powr)
  moreover have "log 2 \<bar>x\<bar> < of_int k + 1"
    using assms(2) pos by (simp add: log_less_iff pow2_powr)
  ultimately show ?thesis by (simp add: floor_unique)
qed

lemma rne_bounds:
  assumes "of_int n \<le> y" and "y \<le> of_int m"
  shows "n \<le> rne y \<and> rne y \<le> m"
proof -
  have f1: "n \<le> \<lfloor>y\<rfloor>" using assms(1) by (simp add: le_floor_iff)
  have f2: "\<lfloor>y\<rfloor> \<le> m" using assms(2) by (simp add: floor_le_iff)
  have "\<lfloor>y\<rfloor> + 1 \<le> m" if "y \<noteq> of_int \<lfloor>y\<rfloor>"
  proof -
    have "of_int \<lfloor>y\<rfloor> < y" using that of_int_floor_le [of y] by linarith
    then have "of_int \<lfloor>y\<rfloor> < (of_int m :: real)" using assms(2) by linarith
    then show ?thesis by simp
  qed
  with f1 f2 show ?thesis
    by (auto simp: rne_def Let_def)
qed

lemma round64_bracket:
  assumes lo: "pow2 k \<le> \<bar>x\<bar>" and hi: "\<bar>x\<bar> < pow2 (k + 1)"
    and k1: "- 1022 \<le> k" and k2: "k < 1023"
  shows "round64 x = Fin (of_int (rne (x * pow2 (52 - k))) * pow2 (k - 52))"
proof -
  have "0 < \<bar>x\<bar>" using lo pow2_pos [of k] by linarith
  then have x0: "x \<noteq> 0" by auto
  have e: "max \<lfloor>log 2 \<bar>x\<bar>\<rfloor> (- 1022) = k"
    using floor_log2 [OF lo hi] k1 by simp
  let ?z = "x * pow2 (52 - k)"
  let ?n = "rne ?z"
  have p: "pow2 k * pow2 (52 - k) = pow2 52" "pow2 (k + 1) * pow2 (52 - k) = pow2 53"
    by (simp_all add: pow2_add [symmetric])
  have az: "\<bar>?z\<bar> = \<bar>x\<bar> * pow2 (52 - k)"
    by (simp add: abs_mult)
  have "pow2 k * pow2 (52 - k) \<le> \<bar>x\<bar> * pow2 (52 - k)"
    using lo by (intro mult_right_mono) auto
  then have zlo: "pow2 52 \<le> \<bar>?z\<bar>"
    unfolding az p(1) .
  have "\<bar>x\<bar> * pow2 (52 - k) \<le> pow2 (k + 1) * pow2 (52 - k)"
    using hi by (intro mult_right_mono) auto
  then have zhi: "\<bar>?z\<bar> \<le> pow2 53"
    unfolding az p(2) .
  have i52: "pow2 52 = of_int (2 ^ 52)" and i53: "pow2 53 = of_int (2 ^ 53)"
    by (simp_all add: pow2_def)
  have nb: "2 ^ 52 \<le> \<bar>?n\<bar> \<and> \<bar>?n\<bar> \<le> 2 ^ 53"
  proof (cases "0 \<le> ?z")
    case True
    then have "of_int (2 ^ 52) \<le> ?z" "?z \<le> of_int (2 ^ 53)"
      using zlo zhi i52 i53 by auto
    from rne_bounds [OF this] show ?thesis by auto
  next
    case False
    then have "of_int (- (2 ^ 53)) \<le> ?z" "?z \<le> of_int (- (2 ^ 52))"
      using zlo zhi i52 i53 by auto
    from rne_bounds [OF this] show ?thesis by auto
  qed
  let ?y = "of_int ?n * pow2 (k - 52)"
  have ya: "\<bar>?y\<bar> = of_int \<bar>?n\<bar> * pow2 (k - 52)"
    by (simp add: abs_mult)
  have "of_int \<bar>?n\<bar> \<le> (pow2 53 :: real)"
    using nb unfolding i53 by (metis of_int_le_iff of_int_numeral of_int_power)
  then have "\<bar>?y\<bar> \<le> pow2 53 * pow2 (k - 52)"
    unfolding ya by (intro mult_right_mono) auto
  also have "\<dots> = pow2 (k + 1)" by (simp add: pow2_add [symmetric] add.commute)
  also have "\<dots> < pow2 1024"
    using k2 by (intro pow2_less) simp
  finally have nov: "\<not> pow2 1024 \<le> \<bar>?y\<bar>" by simp
  have "?n \<noteq> 0" using nb by auto
  then have ynz: "?y \<noteq> 0" by simp
  show ?thesis
    using x0 nov ynz by (simp add: round64_def e Let_def)
qed

lemmas round64_at =
  round64_bracket [where k = "- 3"] round64_bracket [where k = "- 2"]
  round64_bracket [where k = "- 1"] round64_bracket [where k = 0]
  round64_bracket [where k = 1] round64_bracket [where k = 2]
  round64_bracket [where k = 3] round64_bracket [where k = 4]

lemma round64_0 [simp]: "round64 0 = Fin 0"
  by (simp add: round64_def)

lemma rne_minus: "rne (- y) = - rne y"
proof (cases "y = of_int \<lfloor>y\<rfloor>")
  case True
  then obtain n :: int where y: "y = of_int n" by blast
  show ?thesis by (simp add: rne_def y)
next
  case False
  let ?f = "\<lfloor>y\<rfloor>"
  have lo: "of_int ?f < y" using False of_int_floor_le [of y] by linarith
  have hi: "y < of_int ?f + 1" by linarith
  have "of_int (- ?f - 1) \<le> - y" "- y < of_int (- ?f - 1) + 1"
    using lo by (simp_all, linarith)
  then have fm: "\<lfloor>- y\<rfloor> = - ?f - 1"
    by (rule floor_unique)
  show ?thesis
    using lo hi by (auto simp: rne_def fm Let_def)
qed

lemma round64_minus: "x \<noteq> 0 \<Longrightarrow> round64 (- x) = - round64 x"
  by (simp add: round64_def Let_def rne_minus)

lemma exact64_minus: "exact64 x \<Longrightarrow> exact64 (- x)"
  by (cases "x = 0") (simp_all add: exact64_def round64_minus)

section \<open>Lemmas on the arithmetic and on the intersection loop\<close>

lemma minus_Fin [simp]: "Fin a - Fin b = Fin (a - b)"
  by (simp add: minus_double_def)

lemma fl_nf: "\<not> is_finite a \<Longrightarrow> \<not> is_finite (fl a)"
  by (cases a) auto

lemma plus_finite: "is_finite (a + b) \<Longrightarrow> is_finite a \<and> is_finite b"
  by (cases a; cases b) auto

lemma uminus_finite [simp]: "is_finite (- a) = is_finite a"
  by (cases a) auto

lemma times_finite: "is_finite (a * b) \<Longrightarrow> is_finite a \<and> is_finite b"
  by (cases a; cases b) (auto split: if_splits)

lemma fadd_finite: "is_finite (fadd a b) \<Longrightarrow> is_finite a \<and> is_finite b"
  unfolding fadd_def using fl_nf plus_finite by blast

lemma fsub_finite: "is_finite (fsub a b) \<Longrightarrow> is_finite a \<and> is_finite b"
  unfolding fsub_def minus_double_def using fl_nf plus_finite uminus_finite by blast

lemma fmul_finite: "is_finite (fmul a b) \<Longrightarrow> is_finite a \<and> is_finite b"
  unfolding fmul_def using fl_nf times_finite by blast

lemma fdiv_zero: "is_zero b \<Longrightarrow> \<not> is_finite (fdiv a b)"
  unfolding fdiv_def by (cases a; cases b) (auto split: if_splits)

lemma Dot_finite: "is_finite (Dot v w) \<Longrightarrow> finite_vec v \<and> finite_vec w"
  by (cases v; cases w) (auto simp: finite_vec_def dest!: fadd_finite fmul_finite)

lemma vminus_finite: "finite_vec (v - w) \<Longrightarrow> finite_vec v \<and> finite_vec w"
  by (cases v; cases w) (auto simp: finite_vec_def dest!: fsub_finite)

lemma vplus_finite: "finite_vec (v + w) \<Longrightarrow> finite_vec v \<and> finite_vec w"
  by (cases v; cases w) (auto simp: finite_vec_def dest!: fadd_finite)

lemma nf_vscale: "\<not> is_finite t \<Longrightarrow> nonfinite_vec (vscale d t)"
  by (cases d) (auto simp: nonfinite_vec_def dest: fmul_finite)

lemma nf_vplus2: "nonfinite_vec w \<Longrightarrow> nonfinite_vec (v + w)"
  by (cases v; cases w) (auto simp: nonfinite_vec_def dest: fadd_finite)

lemma nf_vminus1: "nonfinite_vec v \<Longrightarrow> nonfinite_vec (v - w)"
  by (cases v; cases w) (auto simp: nonfinite_vec_def dest: fsub_finite)

lemma nf_Dot: "nonfinite_vec v \<Longrightarrow> \<not> is_finite (Dot v w)"
  by (cases v; cases w) (auto simp: nonfinite_vec_def dest!: fadd_finite fmul_finite)

lemma between_finite:
  "is_finite e \<Longrightarrow> - e / Fin 2 \<le> x \<Longrightarrow> x \<le> e / Fin 2 \<Longrightarrow> is_finite x"
  by (cases e; cases x) (auto split: if_splits)

lemma CheckBounds_finite:
  assumes sz: "is_finite (length_prim p)" "is_finite (width p)" "is_finite (depth p)"
    and cb: "CheckBounds p i x y z"
  shows "is_finite x \<or> is_finite z"
proof (cases "i = 0 \<or> i = 2")
  case True
  then have "- width p / Fin 2 \<le> x" "x \<le> width p / Fin 2"
    using cb by (simp_all add: CheckBounds_def)
  then show ?thesis using between_finite [OF sz(2)] by blast
next
  case False
  show ?thesis
  proof (cases "i = 1 \<or> i = 3")
    case True
    then have "- depth p / Fin 2 \<le> z" "z \<le> depth p / Fin 2"
      using cb False by (simp_all add: CheckBounds_def)
    then show ?thesis using between_finite [OF sz(3)] by blast
  next
    case n: False
    then have "- width p / Fin 2 \<le> x" "x \<le> width p / Fin 2"
      using cb False by (simp_all add: CheckBounds_def split: if_splits)
    then show ?thesis using between_finite [OF sz(2)] by blast
  qed
qed

lemma refreshed_fields [simp]:
  "position (refreshed p) = position p" "detX (refreshed p) = detX p"
  "detY (refreshed p) = detY p" "detZ (refreshed p) = detZ p"
  "length_prim (refreshed p) = length_prim p" "width (refreshed p) = width p"
  "depth (refreshed p) = depth p"
  by (simp_all add: refreshed_def set_face_coords_def)

lemma refreshed_funs [simp]:
  "GetUnitVector (refreshed p) = GetUnitVector p"
  "GetLocalCoords (refreshed p) = GetLocalCoords p"
  "CheckBounds (refreshed p) = CheckBounds p"
  by (simp_all add: GetUnitVector_def GetLocalCoords_def CheckBounds_def fun_eq_iff)

lemma need_set_refreshed [simp]: "\<not> need_set (refreshed p)"
  by (simp add: refreshed_def set_face_coords_def)

lemma refreshed_idem [simp]: "refreshed (refreshed p) = refreshed p"
  by (simp add: refreshed_def [of "refreshed p"])

lemma PlaneIntersect_refreshed:
  "PlaneIntersect p offset direction i = PlaneIntersect (refreshed p) offset direction i"
  by (simp add: PlaneIntersect_def refreshed_def [symmetric])

lemma PlaneIntersect_fst [simp]: "fst (PlaneIntersect p offset direction i) = refreshed p"
  by (simp add: PlaneIntersect_def refreshed_def Let_def)

lemma face_struck_refreshed:
  "face_struck p offset direction i = face_struck (refreshed p) offset direction i"
  unfolding face_struck_def PlaneIntersect_refreshed [of p] ..

lemma plane_point_refreshed:
  "plane_point p offset direction i = plane_point (refreshed p) offset direction i"
  unfolding plane_point_def PlaneIntersect_refreshed [of p] ..

lemma parallel_point:
  assumes "is_zero (Dot direction (GetUnitVector p i))"
  shows "nonfinite_vec (plane_point p offset direction i)"
proof -
  have "\<not> is_finite (fdiv a (Dot direction (GetUnitVector (refreshed p) i)))" for a
    using assms by (simp add: fdiv_zero)
  then show ?thesis
    by (simp add: plane_point_def PlaneIntersect_def refreshed_def [symmetric] Let_def
        nf_vplus2 nf_vscale)
qed

lemma struck_point_finite:
  assumes sz: "is_finite (length_prim p)" "is_finite (width p)" "is_finite (depth p)"
    and st: "face_struck p offset direction i"
  shows "finite_vec (plane_point p offset direction i)"
proof -
  let ?P = "plane_point p offset direction i"
  obtain ok where pi: "PlaneIntersect p offset direction i = (refreshed p, ok, ?P)"
    using PlaneIntersect_fst [of p offset direction i]
    by (cases "PlaneIntersect p offset direction i") (auto simp: plane_point_def)
  have cb: "CheckBounds p i (Dot (?P - position p) (detX p)) (Dot (?P - position p) (detY p))
              (Dot (?P - position p) (detZ p))"
    using st unfolding face_struck_def pi by (simp add: GetLocalCoords_def Let_def)
  from CheckBounds_finite [OF sz cb] have "finite_vec (?P - position p)"
    using Dot_finite by blast
  then show ?thesis
    using vminus_finite by blast
qed

lemma nonfinite_not_finite: "nonfinite_vec v \<Longrightarrow> \<not> finite_vec v"
  by (simp add: nonfinite_vec_def finite_vec_def)

lemma parallel_not_struck:
  assumes "is_finite (length_prim p)" "is_finite (width p)" "is_finite (depth p)"
    and "is_zero (Dot direction (GetUnitVector p i))"
  shows "\<not> face_struck p offset direction i"
  using struck_point_finite [OF assms(1-3)] parallel_point [OF assms(4)] nonfinite_not_finite
  by blast

lemma intersect_face_step:
  "intersect_face offset direction i (p, fc, h) =
     (if face_struck p offset direction i
      then (refreshed p, register_hit (refreshed p) offset direction (fc, h) i)
      else (refreshed p, fc, h))"
proof -
  obtain ok ray where pi: "PlaneIntersect p offset direction i = (refreshed p, ok, ray)"
    using PlaneIntersect_fst [of p offset direction i]
    by (cases "PlaneIntersect p offset direction i") auto
  then have pr: "PlaneIntersect (refreshed p) offset direction i = (refreshed p, ok, ray)"
    using PlaneIntersect_refreshed [of p] by simp
  show ?thesis
    by (simp add: intersect_face_def face_struck_def register_hit_def plane_point_def
        pi pr Let_def split: prod.splits)
qed

lemma intersect_loop_fold:
  "intersect_loop offset direction i (p, st) =
     (if i < 6 then (refreshed p, foldl (register_hit (refreshed p) offset direction) st
                  (filter (face_struck (refreshed p) offset direction) [i..<6]))
      else (p, st))"
proof (induction offset direction i "(p, st)" arbitrary: p st rule: intersect_loop.induct)
  case (1 offset direction i)
  obtain fc h where st: "st = (fc, h)" by (cases st) auto
  show ?case
  proof (cases "i < 6")
    case True
    then have upt: "[i..<6] = i # [Suc i..<6]" by (simp add: upt_conv_Cons)
    have fs: "face_struck p offset direction i = face_struck (refreshed p) offset direction i"
      by (rule face_struck_refreshed)
    show ?thesis
    proof (cases "face_struck p offset direction i")
      case s: True
      define st' where "st' = register_hit (refreshed p) offset direction (fc, h) i"
      have step: "intersect_face offset direction i (p, st) = (refreshed p, st')"
        using s by (simp add: st intersect_face_step st'_def)
      have "intersect_loop offset direction i (p, st) =
              intersect_loop offset direction (Suc i) (refreshed p, st')"
        using True by (subst intersect_loop.simps) (simp add: step)
      also have "\<dots> = (refreshed p, foldl (register_hit (refreshed p) offset direction) st'
                  (filter (face_struck (refreshed p) offset direction) [Suc i..<6]))"
        using 1 [OF True step] True by (cases "Suc i < 6") (auto simp: not_less le_Suc_eq)
      finally show ?thesis
        using True s fs by (simp add: upt st st'_def)
    next
      case s: False
      have step: "intersect_face offset direction i (p, st) = (refreshed p, st)"
        using s by (simp add: st intersect_face_step)
      have "intersect_loop offset direction i (p, st) =
              intersect_loop offset direction (Suc i) (refreshed p, st)"
        using True by (subst intersect_loop.simps) (simp add: step)
      also have "\<dots> = (refreshed p, foldl (register_hit (refreshed p) offset direction) st
                  (filter (face_struck (refreshed p) offset direction) [Suc i..<6]))"
        using 1 [OF True step] True by (cases "Suc i < 6") (auto simp: not_less le_Suc_eq)
      finally show ?thesis
        using True s fs by (simp add: upt)
    qed
  next
    case False
    then show ?thesis by (subst intersect_loop.simps) simp
  qed
qed

lemma register_count:
  "fst (foldl (register_hit p offset direction) (fc, h) xs) = fc + int (length xs)"
proof (induction xs arbitrary: fc h)
  case Nil
  then show ?case by simp
next
  case (Cons x xs)
  obtain fc' h' where r: "register_hit p offset direction (fc, h) x = (fc', h')"
    by (cases "register_hit p offset direction (fc, h) x") auto
  then have "fc' = fc + 1"
    by (auto simp: register_hit_def Let_def split: prod.splits if_splits)
  with Cons [of fc' h'] r show ?case by simp
qed

lemma IntersectPrimitive_fold:
  "IntersectPrimitive p offset direction h =
     (case foldl (register_hit (refreshed p) offset direction) (0, h)
             (filter (face_struck (refreshed p) offset direction) [0..<6]) of
        (face_count, h') \<Rightarrow> (refreshed p, 0 < face_count, h'))"
  using intersect_loop_fold [of offset direction 0 "refreshed p" "(0, h)"]
  by (simp add: IntersectPrimitive_def refreshed_def [symmetric] Let_def)

lemma IntersectPrimitive_true_iff:
  "fst (snd (IntersectPrimitive p offset direction h)) \<longleftrightarrow>
     (\<exists>i<6. face_struck (refreshed p) offset direction i)"
proof -
  let ?xs = "filter (face_struck (refreshed p) offset direction) [0..<6]"
  have "fst (snd (IntersectPrimitive p offset direction h)) \<longleftrightarrow> 0 < int (length ?xs)"
    using register_count [of "refreshed p" offset direction 0 h ?xs]
    by (auto simp: IntersectPrimitive_fold split: prod.splits)
  also have "\<dots> \<longleftrightarrow> ?xs \<noteq> []" by simp
  also have "\<dots> \<longleftrightarrow> (\<exists>i<6. face_struck (refreshed p) offset direction i)"
    by (auto simp: filter_empty_conv)
  finally show ?thesis .
qed

lemma upt6: "[0..<6] = [0, 1, 2, 3, 4, 5]"
  by (simp add: upt_rec)

lemma register_points_finite:
  assumes "finite_vec (P1 h) \<and> finite_vec (P2 h)"
    and "finite_vec (plane_point p offset direction i)"
  shows "finite_vec (P1 (snd (register_hit p offset direction (fc, h) i))) \<and>
         finite_vec (P2 (snd (register_hit p offset direction (fc, h) i)))"
  using assms by (auto simp: register_hit_def Let_def split: prod.splits)

lemma fold_points_finite:
  assumes sz: "is_finite (length_prim p)" "is_finite (width p)" "is_finite (depth p)"
    and fc: "\<forall>i\<in>set xs. face_struck p offset direction i"
    and fh: "finite_vec (P1 h) \<and> finite_vec (P2 h)"
  shows "finite_vec (P1 (snd (foldl (register_hit p offset direction) (n, h) xs))) \<and>
         finite_vec (P2 (snd (foldl (register_hit p offset direction) (n, h) xs)))"
  using fc fh
proof (induction xs arbitrary: n h)
  case Nil
  then show ?case by simp
next
  case (Cons x xs)
  obtain n' h' where r: "register_hit p offset direction (n, h) x = (n', h')"
    by (cases "register_hit p offset direction (n, h) x") auto
  have "finite_vec (plane_point p offset direction x)"
    using struck_point_finite [OF sz, of offset direction x] Cons.prems(1) by simp
  from register_points_finite [OF Cons.prems(2) this, of n]
  have "finite_vec (P1 h') \<and> finite_vec (P2 h')" using r by simp
  with Cons.IH [of h' n'] Cons.prems(1) r show ?case by simp
qed

lemma register_saturated:
  "2 \<le> fc \<Longrightarrow> foldl (register_hit p offset direction) (fc, h) xs = (fc + int (length xs), h)"
proof (induction xs arbitrary: fc)
  case Nil
  then show ?case by simp
next
  case (Cons x xs)
  have "register_hit p offset direction (fc, h) x = (fc + 1, h)"
    using Cons.prems by (simp add: register_hit_def Let_def split: prod.splits)
  with Cons.IH [of "fc + 1"] Cons.prems show ?case by simp
qed

lemma two_hits_loop:
  assumes "filter (face_struck (refreshed p) offset direction) [0..<6] = a # b # rest"
  shows "intersect_loop offset direction 0 (refreshed p, 0, h) =
           (refreshed p, 2 + int (length rest),
            (if Length (plane_point (refreshed p) offset direction b) <
                Length (plane_point (refreshed p) offset direction a)
             then h\<lparr>px := fst (GetLocalCoords p (plane_point (refreshed p) offset direction b)),
                    py := fst (snd (GetLocalCoords p (plane_point (refreshed p) offset direction b))),
                    pz := snd (snd (GetLocalCoords p (plane_point (refreshed p) offset direction b))),
                    P1 := plane_point (refreshed p) offset direction a, face1 := int a,
                    P2 := plane_point (refreshed p) offset direction b, face2 := int b\<rparr>
             else h\<lparr>px := fst (GetLocalCoords p (plane_point (refreshed p) offset direction a)),
                    py := fst (snd (GetLocalCoords p (plane_point (refreshed p) offset direction a))),
                    pz := snd (snd (GetLocalCoords p (plane_point (refreshed p) offset direction a))),
                    P1 := plane_point (refreshed p) offset direction a, face1 := int a,
                    P2 := plane_point (refreshed p) offset direction b, face2 := int b\<rparr>))"
proof -
  let ?reg = "register_hit (refreshed p) offset direction"
  let ?A = "plane_point (refreshed p) offset direction a"
  let ?B = "plane_point (refreshed p) offset direction b"
  obtain xa ya za where la: "GetLocalCoords p ?A = (xa, ya, za)"
    by (cases "GetLocalCoords p ?A") auto
  obtain xb yb zb where lb: "GetLocalCoords p ?B = (xb, yb, zb)"
    by (cases "GetLocalCoords p ?B") auto
  define h1 where "h1 = h\<lparr>px := xa, py := ya, pz := za, P1 := ?A, face1 := int a\<rparr>"
  define h2 where "h2 = (if Length ?B < Length ?A
                         then h1\<lparr>P2 := ?B, face2 := int b, px := xb, py := yb, pz := zb\<rparr>
                         else h1\<lparr>P2 := ?B, face2 := int b\<rparr>)"
  have r1: "?reg (0, h) a = (1, h1)"
    by (simp add: register_hit_def la h1_def)
  have r2: "?reg (1, h1) b = (2, h2)"
    by (simp add: register_hit_def lb h1_def h2_def Let_def)
  have "intersect_loop offset direction 0 (refreshed p, 0, h) =
          (refreshed p, 2 + int (length rest), h2)"
    using register_saturated [of 2 "refreshed p" offset direction h2 rest]
      intersect_loop_fold [of offset direction 0 "refreshed p" "(0, h)"]
    by (simp add: assms r1 r2)
  then show ?thesis
    by (simp add: h2_def h1_def la lb)
qed

lemma IntersectPrimitive_loop:
  "IntersectPrimitive p offset direction h =
     (case intersect_loop offset direction 0 (refreshed p, 0, h) of
        (p', face_count, h') \<Rightarrow> (p', 0 < face_count, h'))"
  by (simp add: IntersectPrimitive_def refreshed_def Let_def)

lemma six_cases: "i < 6 \<Longrightarrow> i = 0 \<or> i = 1 \<or> i = 2 \<or> i = 3 \<or> i = 4 \<or> i = Suc 4" for i :: nat
  by arith

lemma neg_half: "- a / Fin 2 = - (a / Fin 2)"
  by (cases a) auto

lemma unit_normal: "i < 6 \<Longrightarrow> GetUnitVector p i = face_normal p i"
  by (drule six_cases) (auto simp: GetUnitVector_def face_normal_def)

lemma set_face_centre: "i < 6 \<Longrightarrow> GlobalFace (set_face_coords p) i = face_centre p i"
  by (drule six_cases) (auto simp: set_face_coords_def face_centre_def)

lemma refreshed_face:
  assumes "face_coords_ok p" and "i < 6"
  shows "GlobalFace (refreshed p) i = face_centre p i"
  using assms set_face_centre [of i p]
  by (auto simp: face_coords_ok_def refreshed_def list_all_iff)

lemma CheckBounds_inside:
  "i < 6 \<Longrightarrow> CheckBounds p i x y z =
     (if i = 0 \<or> i = 2 then inside (width p) x \<and> inside (length_prim p) y
      else if i = 1 \<or> i = 3 then inside (depth p) z \<and> inside (length_prim p) y
      else inside (width p) x \<and> inside (depth p) z)"
  by (drule six_cases) (auto simp: CheckBounds_def inside_def neg_half)

lemma struck_crossed:
  assumes ok: "face_coords_ok p" and i: "i < 6"
  shows "face_struck (refreshed p) offset direction i \<longleftrightarrow> face_crossed p offset direction i"
  unfolding face_struck_def PlaneIntersect_def face_crossed_def GetLocalCoords_def Let_def
  by (simp add: refreshed_face [OF ok i] unit_normal [OF i] CheckBounds_inside [OF i])

text \<open>
  Evaluation on numbers: the rounded operations unfold to \<open>round64\<close>, which is computed
  from the binade of its argument.
\<close>

lemmas ev = fadd_def fsub_def fmul_def fdiv_def fsqrt_def minus_double_def round64_at pow2_def
  rne_def

lemmas ops = fadd_def fsub_def fmul_def fdiv_def minus_double_def

lemmas geo = PlaneIntersect_def set_face_coords_def GetUnitVector_def GetLocalCoords_def
  CheckBounds_def box_def fin_vec_def Let_def face_struck_def plane_point_def refreshed_def

lemmas spec_geo = face_crossed_def face_normal_def face_centre_def inside_def box_def
  fin_vec_def Let_def

lemmas geo_exact = geometric_hit_def face_struck_exact_def face_axis_def face_shift_def
  point_of_def box_def fin_vec_def Let_def

lemma round64_consts:
  "round64 1 = Fin 1" "round64 (- 1) = Fin (- 1)" "round64 10 = Fin 10"
  "round64 (- 10) = Fin (- 10)"
  by (simp_all add: ev)

lemma sqrt_square: "0 \<le> a \<Longrightarrow> sqrt (a * a) = a"
  by simp

lemma sqrt_values: "sqrt 9 = 3" "sqrt 25 = 5" "sqrt (9 / 4) = 3 / 2" "sqrt (1 / 4) = 1 / 2"
  using sqrt_square [of 3] sqrt_square [of 5] sqrt_square [of "3 / 2"] sqrt_square [of "1 / 2"]
  by simp_all

text \<open>
  A ray parallel to the side faces of the unit box: on the face 3, whose normal is the
  negated local X axis, the denominator is the negative zero, the parameter is \<open>-\<infinity>\<close> and
  \<open>PlaneIntersect\<close> returns false.
\<close>

lemma PlaneIntersect_parallel_face3:
  "Dot (fin_vec 0 0 1) (GetUnitVector (box (fin_vec 0 0 0) (Fin 1) (Fin 1) (Fin 1)) 3) = NZero \<and>
   fst (snd (PlaneIntersect (box (fin_vec 0 0 0) (Fin 1) (Fin 1) (Fin 1))
               (fin_vec 0 0 (- 10)) (fin_vec 0 0 1) 3)) = False \<and>
   snd (snd (PlaneIntersect (box (fin_vec 0 0 0) (Fin 1) (Fin 1) (Fin 1))
               (fin_vec 0 0 (- 10)) (fin_vec 0 0 1) 3)) = Vector3 NaN NaN NInf"
  by (simp add: geo ev)

text \<open>
  The box of length 2, width 6 and depth 8 at the origin and the ray from \<open>(-4.5, 0, 1)\<close>
  along \<open>(1.5, 0, -1)\<close>: it enters through the face 3 and leaves through the edge that
  the faces 0 and 1 share.
\<close>

lemma edge_ray_struck:
  "filter (face_struck (refreshed (box (fin_vec 0 0 0) (Fin 2) (Fin 6) (Fin 8)))
             (fin_vec (- (9 / 2)) 0 1) (fin_vec (3 / 2) 0 (- 1))) [0..<6] = [0, 1, 3]"
  by (simp add: upt6 geo ev)

lemma edge_ray_points:
  "plane_point (refreshed (box (fin_vec 0 0 0) (Fin 2) (Fin 6) (Fin 8)))
     (fin_vec (- (9 / 2)) 0 1) (fin_vec (3 / 2) 0 (- 1)) 0 = fin_vec 3 0 (- 4)"
  "plane_point (refreshed (box (fin_vec 0 0 0) (Fin 2) (Fin 6) (Fin 8)))
     (fin_vec (- (9 / 2)) 0 1) (fin_vec (3 / 2) 0 (- 1)) 1 = fin_vec 3 0 (- 4)"
  "plane_point (refreshed (box (fin_vec 0 0 0) (Fin 2) (Fin 6) (Fin 8)))
     (fin_vec (- (9 / 2)) 0 1) (fin_vec (3 / 2) 0 (- 1)) 3 = fin_vec (- 3) 0 0"
  by (simp_all add: geo ev)

lemma edge_ray_local:
  "GetLocalCoords (box (fin_vec 0 0 0) (Fin 2) (Fin 6) (Fin 8)) (fin_vec 3 0 (- 4)) =
     (Fin 3, Fin 0, Fin (- 4))"
  "GetLocalCoords (box (fin_vec 0 0 0) (Fin 2) (Fin 6) (Fin 8)) (fin_vec (- 3) 0 0) =
     (Fin (- 3), Fin 0, Fin 0)"
  by (simp_all add: geo ev)

lemma edge_ray_lengths: "Length (fin_vec (- 3) 0 0) = Fin 3" "Length (fin_vec 3 0 (- 4)) = Fin 5"
  by (simp_all add: Length_def fin_vec_def ev sqrt_values)

text \<open>The unit box centred at \<open>(0, 0, -1)\<close> and the ray from \<open>(0, 0, -10)\<close> along \<open>+Z\<close>.\<close>

lemma low_box_struck:
  "filter (face_struck (refreshed (box (fin_vec 0 0 (- 1)) (Fin 1) (Fin 1) (Fin 1)))
             (fin_vec 0 0 (- 10)) (fin_vec 0 0 1)) [0..<6] = [0, 2]"
  by (simp add: upt6 geo ev)

lemma low_box_points:
  "plane_point (refreshed (box (fin_vec 0 0 (- 1)) (Fin 1) (Fin 1) (Fin 1)))
     (fin_vec 0 0 (- 10)) (fin_vec 0 0 1) 0 = fin_vec 0 0 (- (3 / 2))"
  "plane_point (refreshed (box (fin_vec 0 0 (- 1)) (Fin 1) (Fin 1) (Fin 1)))
     (fin_vec 0 0 (- 10)) (fin_vec 0 0 1) 2 = fin_vec 0 0 (- (1 / 2))"
  by (simp_all add: geo ev)

lemma low_box_lengths:
  "Length (fin_vec 0 0 (- (3 / 2))) = Fin (3 / 2)" "Length (fin_vec 0 0 (- (1 / 2))) = Fin (1 / 2)"
  by (simp_all add: Length_def fin_vec_def ev sqrt_values)

lemma low_box_local:
  "GetLocalCoords (box (fin_vec 0 0 (- 1)) (Fin 1) (Fin 1) (Fin 1)) (fin_vec 0 0 (- (1 / 2))) =
     (Fin 0, Fin 0, Fin (1 / 2))"
  "GetLocalCoords (box (fin_vec 0 0 (- 1)) (Fin 1) (Fin 1) (Fin 1)) (fin_vec 0 0 (- (3 / 2))) =
     (Fin 0, Fin 0, Fin (- (1 / 2)))"
  by (simp_all add: geo ev)

text \<open>
  The box of length 2, width 8 and depth \<open>8 - 2^-49\<close> at the origin and the ray from
  \<open>(-4, 0, -20)\<close> along \<open>(0.5, 0, 1)\<close>: the ray passes the plane of the front face at
  \<open>x = 4 + 2^-51\<close>, beyond the edge at \<open>x = 4\<close>, but the program computes \<open>t = 16\<close> and the
  point \<open>(4, 0, -4)\<close>, which passes the bounds test.
\<close>

lemma corner_ray_depth: "exact64 (8 - 1 / 2 ^ 49)"
  by (simp add: exact64_def ev)

lemma corner_ray_struck:
  "face_struck (refreshed (box (fin_vec 0 0 0) (Fin 2) (Fin 8) (Fin (8 - 1 / 2 ^ 49))))
     (fin_vec (- 4) 0 (- 20)) (fin_vec (1 / 2) 0 1) 0"
  by (simp add: geo ev)

lemma corner_ray_point:
  "plane_point (refreshed (box (fin_vec 0 0 0) (Fin 2) (Fin 8) (Fin (8 - 1 / 2 ^ 49))))
     (fin_vec (- 4) 0 (- 20)) (fin_vec (1 / 2) 0 1) 0 = fin_vec 4 0 (- 4)"
  by (simp add: geo ev)

lemma corner_ray_misses:
  "\<not> geometric_hit (box (fin_vec 0 0 0) (Fin 2) (Fin 8) (Fin (8 - 1 / 2 ^ 49)))
     (fin_vec (- 4) 0 (- 20)) (fin_vec (1 / 2) 0 1)"
  by (simp add: upt6 geo_exact)

text \<open>The box of depth \<open>1 + 2^-52\<close> at the origin and the ray from \<open>(0, 0, -10)\<close> along \<open>+Z\<close>.\<close>

lemma deep_box_depth: "exact64 (1 + 1 / 2 ^ 52)"
  by (simp add: exact64_def ev)

lemma deep_box_struck:
  "filter (face_struck (refreshed (box (fin_vec 0 0 0) (Fin 1) (Fin 1) (Fin (1 + 1 / 2 ^ 52))))
             (fin_vec 0 0 (- 10)) (fin_vec 0 0 1)) [0..<6] = [0, 2]"
  by (simp add: upt6 geo ev)

lemma deep_box_points:
  "plane_point (refreshed (box (fin_vec 0 0 0) (Fin 1) (Fin 1) (Fin (1 + 1 / 2 ^ 52))))
     (fin_vec 0 0 (- 10)) (fin_vec 0 0 1) 0 = fin_vec 0 0 (- (1 / 2))"
  "plane_point (refreshed (box (fin_vec 0 0 0) (Fin 1) (Fin 1) (Fin (1 + 1 / 2 ^ 52))))
     (fin_vec 0 0 (- 10)) (fin_vec 0 0 1) 2 = fin_vec 0 0 (1 / 2)"
  by (simp_all add: geo ev)

lemma deep_box_dist: "Dist3d (fin_vec 0 0 (- (1 / 2))) (fin_vec 0 0 (1 / 2)) = Fin 1"
  by (simp add: Dist3d_def Length_def fin_vec_def ev)

text \<open>The box of length 2, width 1 and depth 3 at the origin, and two rays along \<open>+Z\<close>.\<close>

lemma box_crossed:
  "face_crossed (box (fin_vec 0 0 0) (Fin 2) (Fin 1) (Fin 3)) (fin_vec 0 0 (- 10)) (fin_vec 0 0 1) 0"
  by (simp add: spec_geo ev)

lemma box_not_crossed:
  "i < 6 \<Longrightarrow> \<not> face_crossed (box (fin_vec 0 0 0) (Fin 2) (Fin 1) (Fin 3))
     (fin_vec 5 5 (- 10)) (fin_vec 0 0 1) i"
  by (drule six_cases) (auto simp: spec_geo ev)

lemma box_hyps:
  "position (box (fin_vec 0 0 0) (Fin 2) (Fin 1) (Fin 3)) = fin_vec 0 0 0"
  "detX (box (fin_vec 0 0 0) (Fin 2) (Fin 1) (Fin 3)) = fin_vec 1 0 0"
  "detY (box (fin_vec 0 0 0) (Fin 2) (Fin 1) (Fin 3)) = fin_vec 0 1 0"
  "detZ (box (fin_vec 0 0 0) (Fin 2) (Fin 1) (Fin 3)) = fin_vec 0 0 1"
  "length_prim (box (fin_vec 0 0 0) (Fin 2) (Fin 1) (Fin 3)) = Fin 2"
  "width (box (fin_vec 0 0 0) (Fin 2) (Fin 1) (Fin 3)) = Fin 1"
  "depth (box (fin_vec 0 0 0) (Fin 2) (Fin 1) (Fin 3)) = Fin 3"
  "face_coords_ok (box (fin_vec 0 0 0) (Fin 2) (Fin 1) (Fin 3))"
  by (simp_all add: box_def face_coords_ok_def)

lemma box_exact:
  "exact64 (3 / 2)" "exact64 (10 - 3 / 2)" "exact64 (10 + 3 / 2)" "exact64 3" "exact64 (3 * 3)"
  by (simp_all add: exact64_def ev)

text \<open>
  Bounds on rounded results. A real number between two integers of magnitude at most
  \<open>2^52\<close> rounds to a value between them, so a rounded sum, difference, product or
  quotient stays in the interval that encloses the exact result.
\<close>

lemma pow2_inv: "pow2 k * pow2 (- k) = 1"
  using pow2_add [of k "- k"] by (simp add: pow2_def)

lemma pow2_int: "0 \<le> k \<Longrightarrow> pow2 k = of_int (2 ^ nat k)"
  by (simp add: pow2_def)

lemma round64_in_range:
  assumes lo: "of_int m \<le> x" and hi: "x \<le> of_int n"
    and mb: "- (2 ^ 52) \<le> m" and nb: "n \<le> 2 ^ 52"
  shows "in_range m n (round64 x)"
proof (cases "x = 0")
  case True
  then show ?thesis using lo hi by (simp add: in_range_def)
next
  case False
  define e where "e = max \<lfloor>log 2 \<bar>x\<bar>\<rfloor> (- 1022)"
  have ax: "\<bar>x\<bar> \<le> 2 ^ 52"
  proof -
    have "(of_int m :: real) \<ge> of_int (- (2 ^ 52))" using mb by (simp only: of_int_le_iff)
    moreover have "(of_int n :: real) \<le> of_int (2 ^ 52)" using nb by (simp only: of_int_le_iff)
    ultimately show ?thesis using lo hi by simp
  qed
  have "log 2 \<bar>x\<bar> \<le> 52"
  proof -
    have p: "(2::real) powr 52 = 2 ^ 52"
      using powr_realpow [of 2 52] by simp
    have "log 2 \<bar>x\<bar> \<le> log 2 (2 powr 52)"
      using False ax unfolding p by (intro log_mono) auto
    also have "\<dots> = 52" by (rule log_powr_cancel) simp_all
    finally show ?thesis .
  qed
  then have "\<lfloor>log 2 \<bar>x\<bar>\<rfloor> \<le> 52"
    by (simp add: floor_le_iff)
  then have e52: "e \<le> 52" by (simp add: e_def)
  define k where "k = 52 - e"
  have k0: "0 \<le> k" using e52 by (simp add: k_def)
  have s: "pow2 k = of_int (2 ^ nat k)"
    by (rule pow2_int [OF k0])
  have "x * pow2 k \<le> of_int n * pow2 k"
    using hi by (intro mult_right_mono) auto
  then have u: "x * pow2 k \<le> of_int (n * 2 ^ nat k)"
    by (simp add: s)
  have "of_int m * pow2 k \<le> x * pow2 k"
    using lo by (intro mult_right_mono) auto
  then have l: "of_int (m * 2 ^ nat k) \<le> x * pow2 k"
    by (simp add: s)
  from rne_bounds [OF l u]
  have r: "m * 2 ^ nat k \<le> rne (x * pow2 k)" "rne (x * pow2 k) \<le> n * 2 ^ nat k"
    by auto
  have c: "of_int (j * 2 ^ nat k) * pow2 (- k) = (of_int j :: real)" for j
  proof -
    have "(of_int (j * 2 ^ nat k) :: real) = of_int j * pow2 k"
      by (simp add: s)
    then have "of_int (j * 2 ^ nat k) * pow2 (- k) = (of_int j :: real) * (pow2 k * pow2 (- k))"
      by (simp only: mult.assoc)
    then show ?thesis
      by (simp only: pow2_inv mult_1_right)
  qed
  define y where "y = of_int (rne (x * pow2 k)) * pow2 (- k)"
  have "of_int (m * 2 ^ nat k) * pow2 (- k) \<le> y"
    unfolding y_def using r(1) by (intro mult_right_mono) (simp_all only: of_int_le_iff pow2_nonneg)
  then have yl: "of_int m \<le> y"
    unfolding c .
  have "y \<le> of_int (n * 2 ^ nat k) * pow2 (- k)"
    unfolding y_def using r(2) by (intro mult_right_mono) (simp_all only: of_int_le_iff pow2_nonneg)
  then have yu: "y \<le> of_int n"
    unfolding c .
  have "\<bar>y\<bar> \<le> 2 ^ 52"
  proof -
    have "(of_int m :: real) \<ge> of_int (- (2 ^ 52))" using mb by (simp only: of_int_le_iff)
    moreover have "(of_int n :: real) \<le> of_int (2 ^ 52)" using nb by (simp only: of_int_le_iff)
    ultimately show ?thesis using yl yu by simp
  qed
  moreover have "(2::real) ^ 52 < pow2 1024"
    using pow2_less [of 52 1024] by (simp add: pow2_def)
  ultimately have nov: "\<not> pow2 1024 \<le> \<bar>y\<bar>" by linarith
  have ek: "e - 52 = - k" by (simp add: k_def)
  have "round64 x = (if y = 0 then (if x < 0 then NZero else Fin 0) else Fin y)"
    using False nov
    by (simp add: round64_def Let_def e_def [symmetric] k_def [symmetric] ek y_def [symmetric])
  then show ?thesis
    using yl yu by (auto simp: in_range_def)
qed

lemma fl_in_range:
  assumes "is_finite d" and "of_int m \<le> real_of d" and "real_of d \<le> of_int n"
    and "- (2 ^ 52) \<le> m" and "n \<le> 2 ^ 52"
  shows "in_range m n (fl d)"
proof (cases d)
  case (Fin r)
  then show ?thesis using round64_in_range [of m r n] assms by simp
next
  case NZero
  then show ?thesis using assms by (simp add: in_range_def)
qed (use assms in simp_all)

lemma plus_val:
  "is_finite a \<Longrightarrow> is_finite b \<Longrightarrow>
     is_finite (a + b) \<and> real_of (a + b) = real_of a + real_of b"
  by (cases a; cases b) simp_all

lemma uminus_val: "real_of (- a) = - real_of a"
  by (cases a) simp_all

lemma minus_val:
  "is_finite a \<Longrightarrow> is_finite b \<Longrightarrow>
     is_finite (a - b) \<and> real_of (a - b) = real_of a - real_of b"
  using plus_val [of a "- b"] by (simp add: minus_double_def uminus_val)

lemma times_val:
  "is_finite a \<Longrightarrow> is_finite b \<Longrightarrow>
     is_finite (a * b) \<and> real_of (a * b) = real_of a * real_of b"
  by (cases a; cases b) simp_all

lemma divide_val:
  "is_finite a \<Longrightarrow> c \<noteq> 0 \<Longrightarrow>
     is_finite (a / Fin c) \<and> real_of (a / Fin c) = real_of a / c"
  by (cases a) simp_all

lemma fadd_in_range:
  assumes "in_range m n a" and "in_range m' n' b" and "p \<le> m + m'" and "n + n' \<le> q"
    and "- (2 ^ 52) \<le> p" and "q \<le> 2 ^ 52"
  shows "in_range p q (fadd a b)"
proof -
  have f: "is_finite a" "is_finite b" using assms(1,2) by (simp_all add: in_range_def)
  have "(of_int p :: real) \<le> of_int (m + m')" "(of_int (n + n') :: real) \<le> of_int q"
    using assms(3,4) by (simp_all only: of_int_le_iff)
  then have "of_int p \<le> real_of a + real_of b" "real_of a + real_of b \<le> of_int q"
    using assms(1,2) by (simp_all add: in_range_def)
  then show ?thesis
    unfolding fadd_def using plus_val [OF f] assms(5,6) by (intro fl_in_range) simp_all
qed

lemma fsub_in_range:
  assumes "in_range m n a" and "in_range m' n' b" and "p \<le> m - n'" and "n - m' \<le> q"
    and "- (2 ^ 52) \<le> p" and "q \<le> 2 ^ 52"
  shows "in_range p q (fsub a b)"
proof -
  have f: "is_finite a" "is_finite b" using assms(1,2) by (simp_all add: in_range_def)
  have "(of_int p :: real) \<le> of_int (m - n')" "(of_int (n - m') :: real) \<le> of_int q"
    using assms(3,4) by (simp_all only: of_int_le_iff)
  then have "of_int p \<le> real_of a - real_of b" "real_of a - real_of b \<le> of_int q"
    using assms(1,2) by (simp_all add: in_range_def)
  then show ?thesis
    unfolding fsub_def using minus_val [OF f] assms(5,6) by (intro fl_in_range) simp_all
qed

lemma fmul_one_in_range:
  assumes "in_range m n a" and "- (2 ^ 52) \<le> m" and "n \<le> 2 ^ 52"
  shows "in_range m n (fmul a (Fin 1))" and "in_range m n (fmul (Fin 1) a)"
proof -
  have f: "is_finite a" using assms(1) by (simp add: in_range_def)
  show "in_range m n (fmul a (Fin 1))"
    unfolding fmul_def using times_val [OF f, of "Fin 1"] assms
    by (intro fl_in_range) (simp_all add: in_range_def)
  show "in_range m n (fmul (Fin 1) a)"
    unfolding fmul_def using times_val [OF _ f, of "Fin 1"] assms
    by (intro fl_in_range) (simp_all add: in_range_def)
qed

lemma fmul_neg_in_range:
  assumes "in_range m n a" and "- (2 ^ 52) \<le> m" and "n \<le> 2 ^ 52"
  shows "in_range (- n) (- m) (fmul a (Fin (- 1)))"
proof -
  have f: "is_finite a" using assms(1) by (simp add: in_range_def)
  show ?thesis
    unfolding fmul_def using times_val [OF f, of "Fin (- 1)"] assms
    by (intro fl_in_range) (simp_all add: in_range_def)
qed

lemma in_range_zero: "in_range 0 0 d \<longleftrightarrow> is_zero d"
  by (cases d) (auto simp: in_range_def)

lemma fmul_zero_in_range:
  assumes "is_finite a" and "is_zero b"
  shows "in_range 0 0 (fmul a b)" and "in_range 0 0 (fmul b a)"
proof -
  have fb: "is_finite b" and vb: "real_of b = 0"
    using assms(2) by (cases b; simp)+
  show "in_range 0 0 (fmul a b)"
    unfolding fmul_def using times_val [OF assms(1) fb] vb by (intro fl_in_range) simp_all
  show "in_range 0 0 (fmul b a)"
    unfolding fmul_def using times_val [OF fb assms(1)] vb by (intro fl_in_range) simp_all
qed

lemma fdiv_one_in_range:
  assumes "in_range m n a" and "- (2 ^ 52) \<le> m" and "n \<le> 2 ^ 52"
  shows "in_range m n (fdiv a (Fin 1))"
proof -
  have f: "is_finite a" using assms(1) by (simp add: in_range_def)
  show ?thesis
    unfolding fdiv_def using divide_val [OF f, of 1] assms
    by (intro fl_in_range) (simp_all add: in_range_def)
qed

lemma fdiv_neg_in_range:
  assumes "in_range m n a" and "- (2 ^ 52) \<le> m" and "n \<le> 2 ^ 52"
  shows "in_range (- n) (- m) (fdiv a (Fin (- 1)))"
proof -
  have f: "is_finite a" using assms(1) by (simp add: in_range_def)
  show ?thesis
    unfolding fdiv_def using divide_val [OF f, of "- 1"] assms
    by (intro fl_in_range) (simp_all add: in_range_def)
qed

lemma in_range_nonneg: "in_range m n d \<Longrightarrow> 0 \<le> m \<Longrightarrow> Fin 0 \<le> d"
  by (cases d) (auto simp: in_range_def)

lemma in_range_finite: "in_range m n d \<Longrightarrow> is_finite d"
  by (simp add: in_range_def)

lemma zero_inside:
  "is_zero x \<Longrightarrow> 0 \<le> w \<Longrightarrow> - Fin w / Fin 2 \<le> x \<and> x \<le> Fin w / Fin 2"
  by (cases x) auto

text \<open>
  Vectors along the local Z axis of a primitive at the origin with the global axes: the
  first two components are zeros of either sign, the third lies in an interval.
\<close>

lemma zvec_Dot_Z:
  assumes "zvec m n v" and "- (2 ^ 52) \<le> m" and "n \<le> 2 ^ 52"
  shows "in_range m n (Dot v (Vector3 (Fin 0) (Fin 0) (Fin 1)))"
proof -
  obtain a b c where v: "v = Vector3 a b c" by (cases v)
  have z: "in_range 0 0 a" "in_range 0 0 b" and c: "in_range m n c"
    using assms(1) by (simp_all add: zvec_def v)
  have 1: "in_range 0 0 (fmul a (Fin 0))" "in_range 0 0 (fmul b (Fin 0))"
    using z by (intro fmul_zero_in_range(2); simp add: in_range_zero)+
  have 2: "in_range 0 0 (fadd (fmul a (Fin 0)) (fmul b (Fin 0)))"
    by (rule fadd_in_range [OF 1]) simp_all
  have 3: "in_range m n (fmul c (Fin 1))"
    by (rule fmul_one_in_range [OF c assms(2,3)])
  show ?thesis
    unfolding v Dot.simps by (rule fadd_in_range [OF 2 3]) (use assms in simp_all)
qed

lemma zvec_Dot_negZ:
  assumes "zvec m n v" and "- (2 ^ 52) \<le> m" and "n \<le> 2 ^ 52"
  shows "in_range (- n) (- m) (Dot v (Vector3 NZero NZero (Fin (- 1))))"
proof -
  obtain a b c where v: "v = Vector3 a b c" by (cases v)
  have z: "in_range 0 0 a" "in_range 0 0 b" and c: "in_range m n c"
    using assms(1) by (simp_all add: zvec_def v)
  have 1: "in_range 0 0 (fmul a NZero)" "in_range 0 0 (fmul b NZero)"
    using z by (intro fmul_zero_in_range(2); simp add: in_range_zero)+
  have 2: "in_range 0 0 (fadd (fmul a NZero) (fmul b NZero))"
    by (rule fadd_in_range [OF 1]) simp_all
  have 3: "in_range (- n) (- m) (fmul c (Fin (- 1)))"
    by (rule fmul_neg_in_range [OF c assms(2,3)])
  show ?thesis
    unfolding v Dot.simps by (rule fadd_in_range [OF 2 3]) (use assms in simp_all)
qed

lemma zvec_Dot_X:
  assumes "zvec m n v"
  shows "is_zero (Dot v (Vector3 (Fin 1) (Fin 0) (Fin 0)))"
proof -
  obtain a b c where v: "v = Vector3 a b c" by (cases v)
  have z: "in_range 0 0 a" "in_range 0 0 b" and c: "is_finite c"
    using assms(1) by (simp_all add: zvec_def v in_range_def)
  have 1: "in_range 0 0 (fmul a (Fin 1))"
    by (rule fmul_one_in_range [OF z(1)]) simp_all
  have 2: "in_range 0 0 (fmul b (Fin 0))"
    using z by (intro fmul_zero_in_range(2); simp add: in_range_zero)+
  have 3: "in_range 0 0 (fadd (fmul a (Fin 1)) (fmul b (Fin 0)))"
    by (rule fadd_in_range [OF 1 2]) simp_all
  have 4: "in_range 0 0 (fmul c (Fin 0))"
    using c by (intro fmul_zero_in_range(1)) simp_all
  have "in_range 0 0 (Dot v (Vector3 (Fin 1) (Fin 0) (Fin 0)))"
    unfolding v Dot.simps by (rule fadd_in_range [OF 3 4]) simp_all
  then show ?thesis by (simp add: in_range_zero)
qed

lemma zvec_Dot_Y:
  assumes "zvec m n v"
  shows "is_zero (Dot v (Vector3 (Fin 0) (Fin 1) (Fin 0)))"
proof -
  obtain a b c where v: "v = Vector3 a b c" by (cases v)
  have z: "in_range 0 0 a" "in_range 0 0 b" and c: "is_finite c"
    using assms(1) by (simp_all add: zvec_def v in_range_def)
  have 1: "in_range 0 0 (fmul a (Fin 0))"
    using z by (intro fmul_zero_in_range(2); simp add: in_range_zero)+
  have 2: "in_range 0 0 (fmul b (Fin 1))"
    by (rule fmul_one_in_range [OF z(2)]) simp_all
  have 3: "in_range 0 0 (fadd (fmul a (Fin 0)) (fmul b (Fin 1)))"
    by (rule fadd_in_range [OF 1 2]) simp_all
  have 4: "in_range 0 0 (fmul c (Fin 0))"
    using c by (intro fmul_zero_in_range(1)) simp_all
  have "in_range 0 0 (Dot v (Vector3 (Fin 0) (Fin 1) (Fin 0)))"
    unfolding v Dot.simps by (rule fadd_in_range [OF 3 4]) simp_all
  then show ?thesis by (simp add: in_range_zero)
qed

lemma zvec_plus:
  assumes "zvec m n v" and "zvec m' n' w" and "p \<le> m + m'" and "n + n' \<le> q"
    and "- (2 ^ 52) \<le> p" and "q \<le> 2 ^ 52"
  shows "zvec p q (v + w)"
proof -
  obtain a b c where v: "v = Vector3 a b c" by (cases v)
  obtain x y z where w: "w = Vector3 x y z" by (cases w)
  show ?thesis
    using assms(1,2) unfolding v w zvec_def plus_Vector3.simps Vector3.sel
    by (intro conjI fadd_in_range [of 0 0 _ 0 0] fadd_in_range [of m n _ m' n', OF _ _ assms(3-6)])
       simp_all
qed

lemma zvec_minus:
  assumes "zvec m n v" and "zvec m' n' w" and "p \<le> m - n'" and "n - m' \<le> q"
    and "- (2 ^ 52) \<le> p" and "q \<le> 2 ^ 52"
  shows "zvec p q (v - w)"
proof -
  obtain a b c where v: "v = Vector3 a b c" by (cases v)
  obtain x y z where w: "w = Vector3 x y z" by (cases w)
  show ?thesis
    using assms(1,2) unfolding v w zvec_def minus_Vector3.simps Vector3.sel
    by (intro conjI fsub_in_range [of 0 0 _ 0 0] fsub_in_range [of m n _ m' n', OF _ _ assms(3-6)])
       simp_all
qed

lemma zvec_vscale:
  assumes "in_range m n t" and "- (2 ^ 52) \<le> m" and "n \<le> 2 ^ 52"
  shows "zvec m n (vscale (Vector3 (Fin 0) (Fin 0) (Fin 1)) t)"
  using assms fmul_zero_in_range(2) [of t "Fin 0"] fmul_one_in_range(2) [OF assms]
  by (simp add: zvec_def in_range_def)

lemma zvec_fin: "zvec m m (fin_vec 0 0 (of_int m))"
  by (simp add: zvec_def fin_vec_def in_range_def)

text \<open>
  The primitive of C2: the ray from \<open>(0, 0, -10)\<close> along \<open>+Z\<close> strikes the
  front and the back face, and no other face, whatever the rounding of the depth.
\<close>

lemma face_struck_unfold:
  "face_struck (refreshed p) offset direction i \<longleftrightarrow>
     Fin 0 \<le> fdiv (fsub (Dot (GlobalFace (refreshed p) i) (GetUnitVector p i))
                   (Dot offset (GetUnitVector p i))) (Dot direction (GetUnitVector p i)) \<and>
     CheckBounds p i
       (Dot (plane_point (refreshed p) offset direction i - position p) (detX p))
       (Dot (plane_point (refreshed p) offset direction i - position p) (detY p))
       (Dot (plane_point (refreshed p) offset direction i - position p) (detZ p))"
  by (simp add: face_struck_def plane_point_def PlaneIntersect_def GetLocalCoords_def Let_def)

lemma plane_point_unfold:
  "plane_point (refreshed p) offset direction i =
     offset + vscale direction
       (fdiv (fsub (Dot (GlobalFace (refreshed p) i) (GetUnitVector p i))
                   (Dot offset (GetUnitVector p i))) (Dot direction (GetUnitVector p i)))"
  by (simp add: plane_point_def PlaneIntersect_def Let_def)

lemma CheckBounds_front:
  "CheckBounds p 0 x y z \<longleftrightarrow>
     (- width p / Fin 2 \<le> x \<and> x \<le> width p / Fin 2) \<and>
     (- length_prim p / Fin 2 \<le> y \<and> y \<le> length_prim p / Fin 2)"
  "CheckBounds p 2 x y z \<longleftrightarrow>
     (- width p / Fin 2 \<le> x \<and> x \<le> width p / Fin 2) \<and>
     (- length_prim p / Fin 2 \<le> y \<and> y \<le> length_prim p / Fin 2)"
  by (simp_all add: CheckBounds_def)

lemma z_box_faces:
  assumes pos: "position p = fin_vec 0 0 0"
    and ax: "detX p = fin_vec 1 0 0" "detY p = fin_vec 0 1 0" "detZ p = fin_vec 0 0 1"
    and sz: "length_prim p = Fin L" "width p = Fin W" "depth p = Fin D"
    and ok: "face_coords_ok p"
    and nn: "0 \<le> L" "0 \<le> W" "0 \<le> D" and lt: "D / 2 < 10"
  shows "filter (face_struck (refreshed p) (fin_vec 0 0 (- 10)) (fin_vec 0 0 1)) [0..<6] = [0, 2]"
proof -
  let ?o = "fin_vec 0 0 (- 10)" and ?d = "fin_vec 0 0 1"
  let ?Z = "Vector3 (Fin 0) (Fin 0) (Fin 1)"
  have par: "\<not> face_struck (refreshed p) ?o ?d i" if "i = 1 \<or> i = 3 \<or> i = 4 \<or> i = 5" for i
  proof -
    have "is_zero (Dot ?d (GetUnitVector (refreshed p) i))"
      using that by (auto simp: GetUnitVector_def ax fin_vec_def ops round64_consts)
    then show ?thesis
      by (intro parallel_not_struck) (simp_all add: sz)
  qed
  have h: "in_range 0 10 (fdiv (Fin D) (Fin 2))"
    unfolding fdiv_def using nn lt by (intro fl_in_range) simp_all
  have sv: "zvec 0 10 (vscale (detZ p) (fdiv (Fin D) (Fin 2)))"
    unfolding ax fin_vec_def by (rule zvec_vscale [OF h]) simp_all
  have pz: "zvec 0 0 (position p)"
    unfolding pos using zvec_fin [of 0] by simp
  have oz: "zvec (- 10) (- 10) ?o"
    using zvec_fin [of "- 10"] by simp
  have g0: "zvec (- 10) 0 (GlobalFace (refreshed p) 0)"
    unfolding refreshed_face [OF ok, of 0, simplified] face_centre_def nth_Cons_0 sz
    by (rule zvec_minus [OF pz sv]) simp_all
  have g2: "zvec 0 10 (GlobalFace (refreshed p) 2)"
    unfolding refreshed_face [OF ok, of 2, simplified] face_centre_def sz
    using zvec_plus [OF pz sv, of 0 10] by simp
  have u0: "GetUnitVector p 0 = ?Z"
    by (simp add: GetUnitVector_def ax fin_vec_def)
  have u2: "GetUnitVector p 2 = Vector3 NZero NZero (Fin (- 1))"
    by (simp add: GetUnitVector_def ax fin_vec_def ops round64_consts)
  have d0: "Dot ?o ?Z = Fin (- 10)" "Dot ?d ?Z = Fin 1"
    by (simp_all add: fin_vec_def ops round64_consts)
  have d2: "Dot ?o (Vector3 NZero NZero (Fin (- 1))) = Fin 10"
    "Dot ?d (Vector3 NZero NZero (Fin (- 1))) = Fin (- 1)"
    by (simp_all add: fin_vec_def ops round64_consts)
  have c10: "in_range (- 10) (- 10) (Fin (- 10))" "in_range 10 10 (Fin 10)"
    by (simp_all add: in_range_def)
  define t0 where "t0 = fdiv (fsub (Dot (GlobalFace (refreshed p) 0) ?Z) (Fin (- 10))) (Fin 1)"
  define t2 where "t2 = fdiv (fsub (Dot (GlobalFace (refreshed p) 2)
                          (Vector3 NZero NZero (Fin (- 1)))) (Fin 10)) (Fin (- 1))"
  have n0: "in_range 0 10 (fsub (Dot (GlobalFace (refreshed p) 0) ?Z) (Fin (- 10)))"
    by (rule fsub_in_range [OF zvec_Dot_Z [OF g0] c10(1)]) simp_all
  have t0: "in_range 0 10 t0"
    unfolding t0_def by (rule fdiv_one_in_range [OF n0]) simp_all
  have n2: "in_range (- 20) (- 10) (fsub (Dot (GlobalFace (refreshed p) 2)
              (Vector3 NZero NZero (Fin (- 1)))) (Fin 10))"
    by (rule fsub_in_range [OF zvec_Dot_negZ [OF g2] c10(2)]) simp_all
  have t2: "in_range 10 20 t2"
    unfolding t2_def using fdiv_neg_in_range [OF n2] by simp
  have pp0: "plane_point (refreshed p) ?o ?d 0 = ?o + vscale ?Z t0"
    unfolding plane_point_unfold u0 d0 t0_def by (simp add: fin_vec_def)
  have pp2: "plane_point (refreshed p) ?o ?d 2 = ?o + vscale ?Z t2"
    unfolding plane_point_unfold u2 d2 t2_def by (simp add: fin_vec_def)
  have P0: "zvec (- 10) 0 (?o + vscale ?Z t0 - position p)"
    by (rule zvec_minus [OF zvec_plus [OF oz zvec_vscale [OF t0], of "- 10" 0] pz]) simp_all
  have P2: "zvec 0 10 (?o + vscale ?Z t2 - position p)"
    by (rule zvec_minus [OF zvec_plus [OF oz zvec_vscale [OF t2], of 0 10] pz]) simp_all
  have ax': "detX p = Vector3 (Fin 1) (Fin 0) (Fin 0)" "detY p = Vector3 (Fin 0) (Fin 1) (Fin 0)"
    by (simp_all add: ax fin_vec_def)
  have s0: "face_struck (refreshed p) ?o ?d 0"
    unfolding face_struck_unfold pp0 u0 d0 t0_def [symmetric] CheckBounds_front sz ax'
    using in_range_nonneg [OF t0, simplified] zero_inside [OF zvec_Dot_X [OF P0] nn(2)]
      zero_inside [OF zvec_Dot_Y [OF P0] nn(1)]
    by blast
  have s2: "face_struck (refreshed p) ?o ?d 2"
    unfolding face_struck_unfold pp2 u2 d2 t2_def [symmetric] CheckBounds_front sz ax'
    using in_range_nonneg [OF t2, simplified] zero_inside [OF zvec_Dot_X [OF P2] nn(2)]
      zero_inside [OF zvec_Dot_Y [OF P2] nn(1)]
    by blast
  show ?thesis
    using s0 s2 par by (simp add: upt6)
qed

text \<open>
  The primitive of C2, with a depth on which the arithmetic of the front and
  of the back face is exact: the two points at which the ray from \<open>(0, 0, -10)\<close> along
  \<open>+Z\<close> meets the planes of these faces.
\<close>

lemma z_box_points:
  assumes pos: "position p = fin_vec 0 0 0"
    and ax: "detX p = fin_vec 1 0 0" "detY p = fin_vec 0 1 0" "detZ p = fin_vec 0 0 1"
    and sz: "length_prim p = Fin L" "width p = Fin W" "depth p = Fin D"
    and ok: "face_coords_ok p"
    and nn: "0 < D" and lt: "D / 2 < 10"
    and ex: "exact64 (D / 2)" "exact64 (10 - D / 2)" "exact64 (10 + D / 2)"
  shows "plane_point (refreshed p) (fin_vec 0 0 (- 10)) (fin_vec 0 0 1) 0 = fin_vec 0 0 (- (D / 2))"
    and "plane_point (refreshed p) (fin_vec 0 0 (- 10)) (fin_vec 0 0 1) 2 = fin_vec 0 0 (D / 2)"
proof -
  let ?o = "fin_vec 0 0 (- 10)" and ?d = "fin_vec 0 0 1"
  have a: "- (D / 2) - 10 = - (10 + D / 2)" "- 10 - D / 2 = - (10 + D / 2)"
    "D / 2 + 10 = 10 + D / 2"
    by simp_all
  have r: "round64 (D / 2) = Fin (D / 2)" "round64 (- (D / 2)) = Fin (- (D / 2))"
    "round64 (10 - D / 2) = Fin (10 - D / 2)" "round64 (- 10 - D / 2) = Fin (- 10 - D / 2)"
    "round64 (10 + D / 2) = Fin (10 + D / 2)"
    "round64 (- (D / 2) - 10) = Fin (- (D / 2) - 10)" "round64 (D / 2 + 10) = Fin (D / 2 + 10)"
    unfolding a
    using ex exact64_minus [OF ex(1)] exact64_minus [OF ex(3)]
    by (simp_all only: exact64_def)
  have g0: "GlobalFace (refreshed p) 0 = fin_vec 0 0 (- (D / 2))"
    using nn by (simp add: refreshed_face [OF ok] face_centre_def pos ax sz fin_vec_def ops r round64_consts)
  have g2: "GlobalFace (refreshed p) 2 = fin_vec 0 0 (D / 2)"
    using nn by (simp add: refreshed_face [OF ok] face_centre_def pos ax sz fin_vec_def ops r round64_consts)
  have pi0: "PlaneIntersect (refreshed p) ?o ?d 0 = (refreshed p, True, fin_vec 0 0 (- (D / 2)))"
    using nn lt by (simp add: PlaneIntersect_def g0 GetUnitVector_def ax fin_vec_def ops r round64_consts Let_def)
  have pi2: "PlaneIntersect (refreshed p) ?o ?d 2 = (refreshed p, True, fin_vec 0 0 (D / 2))"
    using nn lt by (simp add: PlaneIntersect_def g2 GetUnitVector_def ax fin_vec_def ops r round64_consts Let_def)
  show "plane_point (refreshed p) ?o ?d 0 = fin_vec 0 0 (- (D / 2))"
    by (simp add: plane_point_def pi0)
  show "plane_point (refreshed p) ?o ?d 2 = fin_vec 0 0 (D / 2)"
    by (simp add: plane_point_def pi2)
qed

lemma z_box_distance:
  assumes "0 < D" and "exact64 D" and "exact64 (D * D)"
  shows "Dist3d (fin_vec 0 0 (- (D / 2))) (fin_vec 0 0 (D / 2)) = Fin D"
  using assms by (simp add: Dist3d_def Length_def fin_vec_def ops fsqrt_def exact64_def)

section \<open>Lemmas on the loops of the angular distribution\<close>

lemma Initialize_failed_state:
  assumes "\<not> fst (Initialize a c mem)"
  shows "snd (Initialize a c mem) = a\<lparr>num_points := num_points (snd (Initialize a c mem))\<rparr>"
proof (cases c)
  case (FromFile fl bi targ)
  with assms show ?thesis
    by (auto simp: Initialize_file_def Let_def split: option.splits prod.splits if_splits)
next
  case (FromArrays n angle xs bi targ)
  with assms show ?thesis
    by (auto simp: Initialize_arrays_def Let_def split: prod.splits if_splits)
next
  case (Isotropic xs)
  with assms show ?thesis
    by (auto simp: Initialize_isotropic_def split: if_splits)
qed

lemma Initialize_failed_init:
  assumes "\<not> fst (Initialize a c mem)"
  shows "init (snd (Initialize a c mem)) = init a"
  by (subst Initialize_failed_state [OF assms]) simp

lemma Initialize_success_init:
  assumes "fst (Initialize a c mem)"
  shows "init (snd (Initialize a c mem))"
proof (cases c)
  case (FromFile fl bi targ)
  with assms show ?thesis
    by (auto simp: Initialize_file_def Let_def split: option.splits prod.splits if_splits)
next
  case (FromArrays n angle xs bi targ)
  with assms show ?thesis
    by (auto simp: Initialize_arrays_def Let_def split: prod.splits if_splits)
next
  case (Isotropic xs)
  with assms show ?thesis
    by (auto simp: Initialize_isotropic_def split: if_splits)
qed

lemma Initialize_when_init:
  assumes "init a"
  shows "Initialize a c mem = (False, a)"
  using assms
  by (cases c) (simp_all add: Initialize_file_def Initialize_arrays_def Initialize_isotropic_def)

lemma after_failed_init:
  "after_failed a cs = Some a' \<Longrightarrow> init a' = init a"
proof (induction cs arbitrary: a)
  case Nil
  then show ?case by simp
next
  case (Cons x cs)
  obtain c mem where x: "x = (c, mem)" by (cases x) auto
  obtain ok a1 where r: "Initialize a c mem = (ok, a1)" by (cases "Initialize a c mem") auto
  with Cons.prems x have nok: "\<not> ok" and rest: "after_failed a1 cs = Some a'"
    by (auto split: if_splits bool.splits)
  from Initialize_failed_init [of a c mem] r nok have "init a1 = init a" by simp
  with Cons.IH [OF rest] show ?case by simp
qed

lemma isotropic_after_failed_file:
  "fst (Sample (snd (Initialize_isotropic
          (snd (Initialize_file (AngularDist_new (Fin 0)) (Some one_point) (Fin 0) None zero_mem))
          (Fin 5))) half_rng) = Fin (- 1) \<and>
   fst (Sample (snd (Initialize_isotropic (AngularDist_new (Fin 0)) (Fin 5))) half_rng) =
     Fin 0.5 * pi_c"
  by (simp add: Initialize_file_def Initialize_isotropic_def AngularDist_new_def one_point_def
      Sample_def frand_def half_rng_def sample_loop.simps)

lemma read_pairs_result:
  "read_pairs pairs (xv, yv, k) = (xv @ map fst pairs, yv @ map snd pairs, k + length pairs)"
  by (induction pairs arbitrary: xv yv k) auto

lemma load_vectors_result:
  assumes "length xs = length ys" and "index + length xs \<le> length ct" and "length dd = length ct"
  shows "load_vectors xs ys index (ct, dd) =
           (take index ct @ map (\<lambda>x. x * deg2rad) xs @ drop (index + length xs) ct,
            take index dd @ ys @ drop (index + length xs) dd)"
  using assms
proof (induction xs ys arbitrary: index ct dd rule: list_induct2)
  case Nil
  then show ?case by simp
next
  case (Cons x xs y ys)
  have i: "index < length ct" "index < length dd" using Cons.prems by auto
  have "load_vectors (x # xs) (y # ys) index (ct, dd) =
          load_vectors xs ys (Suc index) (ct[index := x * deg2rad], dd[index := y])"
    by simp
  also have "\<dots> = (take (Suc index) (ct[index := x * deg2rad]) @ map (\<lambda>x. x * deg2rad) xs @
                       drop (Suc index + length xs) (ct[index := x * deg2rad]),
                    take (Suc index) (dd[index := y]) @ ys @
                       drop (Suc index + length xs) (dd[index := y]))"
    using Cons.prems by (intro Cons.IH) auto
  finally show ?case
    using i by (simp add: take_Suc_conv_app_nth)
qed

lemma load_arrays_result:
  assumes "i \<le> n" and "length ct = n" and "length dd = n"
  shows "load_arrays i n angle xs (ct, dd) =
           (take i ct @ map (\<lambda>j. angle j * deg2rad) [i..<n], take i dd @ map xs [i..<n])"
  using assms
proof (induction "n - i" arbitrary: i ct dd)
  case 0
  then show ?case by (subst load_arrays.simps) simp
next
  case (Suc k)
  then have lt: "i < n" by simp
  have "load_arrays i n angle xs (ct, dd) =
          load_arrays (Suc i) n angle xs (ct[i := angle i * deg2rad], dd[i := xs i])"
    using lt by (subst load_arrays.simps) simp
  also have "\<dots> = (take (Suc i) (ct[i := angle i * deg2rad]) @ map (\<lambda>j. angle j * deg2rad) [Suc i..<n],
                    take (Suc i) (dd[i := xs i]) @ map xs [Suc i..<n])"
    using Suc.prems Suc.hyps(2) lt by (intro Suc.hyps(1)) auto
  finally show ?case
    using lt Suc.prems by (simp add: take_Suc_conv_app_nth upt_conv_Cons)
qed

lemma integrate_result:
  assumes "i < n" and "length integ = n"
  shows "integrate i n ct dd (trapezoid_sum (\<lambda>j. ct ! j) (\<lambda>j. dd ! j) i, integ) =
           (trapezoid_sum (\<lambda>j. ct ! j) (\<lambda>j. dd ! j) (n - 1),
            take (Suc i) integ @ map (trapezoid_sum (\<lambda>j. ct ! j) (\<lambda>j. dd ! j)) [Suc i..<n])"
  using assms
proof (induction "n - 1 - i" arbitrary: i integ)
  case 0
  then have "i = n - 1" by simp
  with 0 show ?case by (subst integrate.simps) simp
next
  case (Suc k)
  let ?S = "trapezoid_sum (\<lambda>j. ct ! j) (\<lambda>j. dd ! j)"
  from Suc have lt: "i < n - 1" by simp
  have "integrate i n ct dd (?S i, integ) =
          integrate (Suc i) n ct dd (?S (Suc i), integ[Suc i := ?S (Suc i)])"
    using lt by (subst integrate.simps) (simp add: Let_def trapezoid_def)
  also have "\<dots> = (?S (n - 1), take (Suc (Suc i)) (integ[Suc i := ?S (Suc i)]) @ map ?S [Suc (Suc i)..<n])"
    using Suc.prems Suc.hyps(2) lt by (intro Suc.hyps(1)) auto
  finally show ?case
    using lt Suc.prems by (simp add: take_Suc_conv_app_nth upt_conv_Cons del: trapezoid_sum.simps)
qed

lemma trapezoid_sum_cong:
  assumes "\<And>j. j \<le> k \<Longrightarrow> theta j = theta' j" and "\<And>j. j \<le> k \<Longrightarrow> ds j = ds' j"
  shows "trapezoid_sum theta ds k = trapezoid_sum theta' ds' k"
  using assms
proof (induction k)
  case 0
  then show ?case by simp
next
  case (Suc k)
  have "trapezoid theta ds k = trapezoid theta' ds' k"
    using Suc.prems(1) [of k] Suc.prems(1) [of "Suc k"] Suc.prems(2) [of k] Suc.prems(2) [of "Suc k"]
    by (simp add: trapezoid_def)
  moreover have "trapezoid_sum theta ds k = trapezoid_sum theta' ds' k"
    using Suc.prems by (intro Suc.IH) auto
  ultimately show ?case by simp
qed

lemma integrate_table:
  assumes n: "2 \<le> n" and len: "length in0 = n"
  shows "integrate 0 n (map (\<lambda>j. angle j * deg2rad) [0..<n]) (map ds [0..<n])
           (Fin 0, in0[0 := Fin 0]) =
         (trapezoid_sum (\<lambda>j. angle j * deg2rad) ds (n - 1),
          map (trapezoid_sum (\<lambda>j. angle j * deg2rad) ds) [0..<n])"
proof -
  let ?ct = "map (\<lambda>j. angle j * deg2rad) [0..<n]" and ?dd = "map ds [0..<n]"
  let ?S = "trapezoid_sum (\<lambda>j. ?ct ! j) (\<lambda>j. ?dd ! j)"
  let ?T = "trapezoid_sum (\<lambda>j. angle j * deg2rad) ds"
  have eq: "?S k = ?T k" if "k < n" for k
    using that by (intro trapezoid_sum_cong) auto
  have "integrate 0 n ?ct ?dd (?S 0, in0[0 := Fin 0]) =
          (?S (n - 1), take (Suc 0) (in0[0 := Fin 0]) @ map ?S [Suc 0..<n])"
    using n len by (intro integrate_result) auto
  moreover have "take (Suc 0) (in0[0 := Fin 0]) = [?T 0]"
    using n len by (cases in0) auto
  moreover have "map ?S [Suc 0..<n] = map ?T [Suc 0..<n]"
    using eq by simp
  moreover have "[0..<n] = 0 # [Suc 0..<n]"
    using n by (simp add: upt_conv_Cons)
  moreover have "?S (n - 1) = ?T (n - 1)"
    using n by (intro eq) simp
  ultimately show ?thesis
    by simp
qed

lemma Initialize_arrays_result:
  assumes "\<not> init a" and "2 \<le> n"
  shows "Initialize_arrays a n angle ds beam_intensity targ mem =
           (True, a\<lparr>reaction_xsection := trapezoid_sum (\<lambda>j. angle j * deg2rad) ds (n - 1),
                     rate := (case targ of None \<Rightarrow> Fin 0
                              | Some density \<Rightarrow>
                                  trapezoid_sum (\<lambda>j. angle j * deg2rad) ds (n - 1) *
                                    beam_intensity * density),
                     num_points := n, init := True,
                     com_theta := map (\<lambda>j. angle j * deg2rad) [0..<n],
                     dsigma_domega := map ds [0..<n],
                     integral := map (trapezoid_sum (\<lambda>j. angle j * deg2rad) ds) [0..<n]\<rparr>)"
proof -
  have la: "load_arrays 0 n angle ds (new_array m0 n, new_array m1 n) =
              (map (\<lambda>j. angle j * deg2rad) [0..<n], map ds [0..<n])" for m0 m1
    by (simp add: load_arrays_result new_array_def)
  have it: "integrate 0 n (map (\<lambda>j. angle j * deg2rad) [0..<n]) (map ds [0..<n])
           (Fin 0, (new_array m2 n)[0 := Fin 0]) =
         (trapezoid_sum (\<lambda>j. angle j * deg2rad) ds (n - 1),
          map (trapezoid_sum (\<lambda>j. angle j * deg2rad) ds) [0..<n])" for m2
    using assms(2) by (intro integrate_table) (simp_all add: new_array_def)
  show ?thesis
    using assms by (simp add: Initialize_arrays_def Let_def la it split: option.splits)
qed

lemma Initialize_file_result:
  assumes "\<not> init a" and "num_points a = 0" and "length pairs = n" and "2 \<le> n"
  shows "Initialize_file a (Some pairs) beam_intensity targ mem =
           (True, a\<lparr>reaction_xsection :=
                       trapezoid_sum (\<lambda>j. column_x pairs j * deg2rad) (column_y pairs) (n - 1),
                     rate := (case targ of None \<Rightarrow> Fin 0
                              | Some density \<Rightarrow>
                                  trapezoid_sum (\<lambda>j. column_x pairs j * deg2rad) (column_y pairs)
                                    (n - 1) * Fin (1 / 10 ^ 27) * beam_intensity * density),
                     num_points := n, init := True,
                     com_theta := map (\<lambda>j. column_x pairs j * deg2rad) [0..<n],
                     dsigma_domega := map (column_y pairs) [0..<n],
                     integral := map (trapezoid_sum (\<lambda>j. column_x pairs j * deg2rad)
                                        (column_y pairs)) [0..<n]\<rparr>)"
proof -
  have lv: "load_vectors (map fst pairs) (map snd pairs) 0 (new_array m0 n, new_array m1 n) =
              (map (\<lambda>j. column_x pairs j * deg2rad) [0..<n], map (column_y pairs) [0..<n])" for m0 m1
    using assms(3) by (simp add: load_vectors_result new_array_def column_x_def column_y_def
        list_eq_iff_nth_eq)
  have it: "integrate 0 n (map (\<lambda>j. column_x pairs j * deg2rad) [0..<n]) (map (column_y pairs) [0..<n])
           (Fin 0, (new_array m2 n)[0 := Fin 0]) =
         (trapezoid_sum (\<lambda>j. column_x pairs j * deg2rad) (column_y pairs) (n - 1),
          map (trapezoid_sum (\<lambda>j. column_x pairs j * deg2rad) (column_y pairs)) [0..<n])" for m2
    using assms(4) by (intro integrate_table) (simp_all add: new_array_def)
  show ?thesis
    using assms
    by (simp add: Initialize_file_def read_pairs_result Let_def lv it split: option.splits)
qed

lemma two_points_xsection:
  "\<exists>x>0. trapezoid_sum (\<lambda>j. column_x two_points j * deg2rad) (column_y two_points) (2 - 1) = Fin x"
proof -
  define t :: real where "t = 90 * 3.1415926540 / 180"
  have "0 < t" by (simp add: t_def)
  moreover have "t < pi"
    using pi_ge_two by (simp add: t_def)
  ultimately have s: "0 < sin t"
    by (rule sin_gt_zero)
  have "trapezoid_sum (\<lambda>j. column_x two_points j * deg2rad) (column_y two_points) (2 - 1) =
          Fin (0.5 * t * sin t * 2 * 3.1415926540)"
    by (simp add: trapezoid_def column_x_def column_y_def two_points_def deg2rad_def pi_c_def t_def)
  moreover have "0 < 0.5 * t * sin t * 2 * 3.1415926540"
    using s \<open>0 < t\<close> by simp
  ultimately show ?thesis by blast
qed

lemma overloads_agree_without_target:
  assumes "\<not> init a" and "num_points a = 0" and "length pairs = n" and "2 \<le> n"
  shows "Initialize_file a (Some pairs) beam_intensity None mem =
         Initialize_arrays a n (column_x pairs) (column_y pairs) beam_intensity None mem'"
  using assms by (simp add: Initialize_file_result Initialize_arrays_result)

text \<open>
  A tabulated \<open>Initialize\<close> on \<open>n \<ge> 2\<close> points leaves the state that the specification
  describes (\<open>tabulated_state\<close>) when it is the array overload on an object that is not
  initialized, or the file overload on such an object whose \<open>num_points\<close> is zero at the
  call, as it is after construction.
\<close>

lemma tabulated_Initialize_from_zero_count:
  assumes "\<not> init a" and "2 \<le> n"
  shows "fst (Initialize_arrays a n angle ds beam_intensity targ mem) \<and>
         tabulated_state (snd (Initialize_arrays a n angle ds beam_intensity targ mem)) n angle ds \<and>
         (num_points a = 0 \<and> length pairs = n \<longrightarrow>
            fst (Initialize_file a (Some pairs) beam_intensity targ mem) \<and>
            tabulated_state (snd (Initialize_file a (Some pairs) beam_intensity targ mem)) n
              (column_x pairs) (column_y pairs))"
  using assms
  by (simp add: Initialize_arrays_result Initialize_file_result tabulated_state_def)

text \<open>
  A file of one point read by a fresh object, and then a file of two points read by the
  same object: the count starts at one, the arrays have three cells, and the third cell of
  each is what the memory held.
\<close>

lemma failed_one_point:
  "Initialize_file (AngularDist_new r) (Some one_point) bi targ mem0 =
     (False, (AngularDist_new r)\<lparr>num_points := 1\<rparr>)"
  by (simp add: Initialize_file_def AngularDist_new_def one_point_def)

lemma integrate_three:
  "integrate 0 3 ct dd (Fin 0, [i0, i1, i2]) =
     (Fin 0 + trapezoid (\<lambda>j. ct ! j) (\<lambda>j. dd ! j) 0 + trapezoid (\<lambda>j. ct ! j) (\<lambda>j. dd ! j) 1,
      [i0, Fin 0 + trapezoid (\<lambda>j. ct ! j) (\<lambda>j. dd ! j) 0,
       Fin 0 + trapezoid (\<lambda>j. ct ! j) (\<lambda>j. dd ! j) 0 +
         trapezoid (\<lambda>j. ct ! j) (\<lambda>j. dd ! j) 1])"
  apply (subst integrate.simps)
  apply (simp add: Let_def trapezoid_def)
  apply (subst integrate.simps)
  apply (simp add: Let_def trapezoid_def numeral_2_eq_2)
  apply (subst integrate.simps)
  apply simp
  done

lemma second_file_call:
  "Initialize_file ((AngularDist_new r)\<lparr>num_points := 1\<rparr>) (Some two_points) bi None mem =
     (True, (AngularDist_new r)\<lparr>
        reaction_xsection :=
          Fin 0 + trapezoid (\<lambda>j. [Fin 0 * deg2rad, Fin 90 * deg2rad, mem 0 2] ! j)
                    (\<lambda>j. [Fin 1, Fin 1, mem 1 2] ! j) 0 +
            trapezoid (\<lambda>j. [Fin 0 * deg2rad, Fin 90 * deg2rad, mem 0 2] ! j)
                    (\<lambda>j. [Fin 1, Fin 1, mem 1 2] ! j) 1,
        rate := Fin 0, num_points := 3, init := True,
        com_theta := [Fin 0 * deg2rad, Fin 90 * deg2rad, mem 0 2],
        dsigma_domega := [Fin 1, Fin 1, mem 1 2],
        integral := [Fin 0,
           Fin 0 + trapezoid (\<lambda>j. [Fin 0 * deg2rad, Fin 90 * deg2rad, mem 0 2] ! j)
                    (\<lambda>j. [Fin 1, Fin 1, mem 1 2] ! j) 0,
           Fin 0 + trapezoid (\<lambda>j. [Fin 0 * deg2rad, Fin 90 * deg2rad, mem 0 2] ! j)
                    (\<lambda>j. [Fin 1, Fin 1, mem 1 2] ! j) 0 +
            trapezoid (\<lambda>j. [Fin 0 * deg2rad, Fin 90 * deg2rad, mem 0 2] ! j)
                    (\<lambda>j. [Fin 1, Fin 1, mem 1 2] ! j) 1]\<rparr>)"
proof -
  have rp: "read_pairs two_points ([], [], Suc 0) = ([Fin 0, Fin 90], [Fin 1, Fin 1], 3)"
    by (simp add: two_points_def)
  have na: "new_array m 3 = [m 0, m 1, m 2]" for m
    by (simp add: new_array_def upt_rec numeral_3_eq_3 numeral_2_eq_2)
  have lv: "load_vectors [Fin 0, Fin 90] [Fin 1, Fin 1] 0 ([a0, a1, a2], [b0, b1, b2]) =
              ([Fin 0 * deg2rad, Fin 90 * deg2rad, a2], [Fin 1, Fin 1, b2])" for a0 a1 a2 b0 b1 b2
    by simp
  show ?thesis
    by (simp add: Initialize_file_def AngularDist_new_def rp na lv integrate_three Let_def)
qed

lemma zero_memory_xsection:
  "Fin 0 + trapezoid (\<lambda>j. [Fin 0 * deg2rad, Fin 90 * deg2rad, zero_mem 0 2] ! j)
                    (\<lambda>j. [Fin 1, Fin 1, zero_mem 1 2] ! j) 0 +
            trapezoid (\<lambda>j. [Fin 0 * deg2rad, Fin 90 * deg2rad, zero_mem 0 2] ! j)
                    (\<lambda>j. [Fin 1, Fin 1, zero_mem 1 2] ! j) 1 = Fin 0"
proof -
  define t :: real where "t = 90 * 3.1415926540 / 180"
  have "0 < t" by (simp add: t_def)
  moreover have "t < pi"
    using pi_ge_two by (simp add: t_def)
  ultimately have s: "0 < sin t"
    by (rule sin_gt_zero)
  have d: "Fin 90 * deg2rad = Fin t"
    by (simp add: deg2rad_def pi_c_def t_def)
  show ?thesis
    using s \<open>0 < t\<close> by (simp add: trapezoid_def zero_mem_def d pi_c_def deg2rad_def)
qed

section \<open>The bounds test\<close>



section \<open>Rays and faces\<close>




text \<open>
  C1, as stated, fails for \<open>PlaneIntersect\<close>: for the unit box at the origin and the ray
  from \<open>(0, 0, -10)\<close> along \<open>+Z\<close>, which is parallel to the face 1, the denominator is
  zero, the division gives \<open>t = +\<infinity>\<close>, the function returns true, and the point that it
  hands back has no finite coordinate.
\<close>

theorem PlaneIntersect_parallel_counterexample:
  "is_zero (Dot (fin_vec 0 0 1) (GetUnitVector (box (fin_vec 0 0 0) (Fin 1) (Fin 1) (Fin 1)) 1)) \<and>
   fst (snd (PlaneIntersect (box (fin_vec 0 0 0) (Fin 1) (Fin 1) (Fin 1))
               (fin_vec 0 0 (- 10)) (fin_vec 0 0 1) 1)) = True \<and>
   snd (snd (PlaneIntersect (box (fin_vec 0 0 0) (Fin 1) (Fin 1) (Fin 1))
               (fin_vec 0 0 (- 10)) (fin_vec 0 0 1) 1)) = Vector3 NaN NaN PInf"
  by (simp add: geo ev)

text \<open>
  C1, as amended. \<open>PlaneIntersect\<close> does not guard the division: when the dot product of
  the direction with the unit normal of a face is a zero of either sign, the point that it
  hands back has no finite coordinate. For a primitive of finite size the loop of
  \<open>IntersectPrimitive\<close> nevertheless does not count that face: its body leaves the face
  count and the caller's variables as they are, because the bounds test rejects
  coordinates that are not finite. If \<open>P1\<close> and \<open>P2\<close> are finite before the call of
  \<open>IntersectPrimitive\<close>, they are finite after it.
\<close>

theorem parallel_face_not_counted:
  assumes "is_finite (length_prim p)" and "is_finite (width p)" and "is_finite (depth p)"
    and "is_zero (Dot direction (GetUnitVector p i))"
  shows "nonfinite_vec (plane_point p offset direction i) \<and>
         snd (intersect_face offset direction i (p, face_count, h)) = (face_count, h) \<and>
         (finite_vec (P1 h) \<and> finite_vec (P2 h) \<longrightarrow>
            finite_vec (P1 (snd (snd (IntersectPrimitive p offset direction h)))) \<and>
            finite_vec (P2 (snd (snd (IntersectPrimitive p offset direction h)))))"
proof (intro conjI impI)
  show "nonfinite_vec (plane_point p offset direction i)"
    by (rule parallel_point [OF assms(4)])
  show "snd (intersect_face offset direction i (p, face_count, h)) = (face_count, h)"
    using parallel_not_struck [OF assms] by (simp add: intersect_face_step)
  assume fh: "finite_vec (P1 h) \<and> finite_vec (P2 h)"
  let ?xs = "filter (face_struck (refreshed p) offset direction) [0..<6]"
  have "finite_vec (P1 (snd (foldl (register_hit (refreshed p) offset direction) (0, h) ?xs))) \<and>
        finite_vec (P2 (snd (foldl (register_hit (refreshed p) offset direction) (0, h) ?xs)))"
    using assms(1-3) fh by (intro fold_points_finite) simp_all
  then show "finite_vec (P1 (snd (snd (IntersectPrimitive p offset direction h))))"
    and "finite_vec (P2 (snd (snd (IntersectPrimitive p offset direction h))))"
    by (auto simp: IntersectPrimitive_fold split: prod.splits)
qed

text \<open>
  The ray from \<open>(0, 0, -10)\<close> along \<open>+Z\<close> and the face 3 of a box: the denominator is the
  negative zero.
\<close>

theorem parallel_face_not_counted_witness:
  "is_finite (length_prim (box (fin_vec 0 0 0) (Fin 2) (Fin 1) (Fin 3))) \<and>
   is_finite (width (box (fin_vec 0 0 0) (Fin 2) (Fin 1) (Fin 3))) \<and>
   is_finite (depth (box (fin_vec 0 0 0) (Fin 2) (Fin 1) (Fin 3))) \<and>
   Dot (fin_vec 0 0 1) (GetUnitVector (box (fin_vec 0 0 0) (Fin 2) (Fin 1) (Fin 3)) 3) = NZero \<and>
   is_zero (Dot (fin_vec 0 0 1) (GetUnitVector (box (fin_vec 0 0 0) (Fin 2) (Fin 1) (Fin 3)) 3)) \<and>
   finite_vec (P1 hit0) \<and> finite_vec (P2 hit0) \<and>
   nonfinite_vec (plane_point (box (fin_vec 0 0 0) (Fin 2) (Fin 1) (Fin 3))
     (fin_vec 0 0 (- 10)) (fin_vec 0 0 1) 3) \<and>
   snd (intersect_face (fin_vec 0 0 (- 10)) (fin_vec 0 0 1) 3
     ((box (fin_vec 0 0 0) (Fin 2) (Fin 1) (Fin 3)), 1, hit0)) = (1, hit0) \<and>
   finite_vec (P1 (snd (snd (IntersectPrimitive (box (fin_vec 0 0 0) (Fin 2) (Fin 1) (Fin 3))
              (fin_vec 0 0 (- 10)) (fin_vec 0 0 1) hit0)))) \<and>
   finite_vec (P2 (snd (snd (IntersectPrimitive (box (fin_vec 0 0 0) (Fin 2) (Fin 1) (Fin 3))
              (fin_vec 0 0 (- 10)) (fin_vec 0 0 1) hit0))))"
proof -
  let ?B = "(box (fin_vec 0 0 0) (Fin 2) (Fin 1) (Fin 3))"
  have sz: "is_finite (length_prim ?B)" "is_finite (width ?B)" "is_finite (depth ?B)"
    by (simp_all add: box_def)
  have par: "Dot (fin_vec 0 0 1) (GetUnitVector ?B 3) = NZero"
    by (simp add: GetUnitVector_def box_def fin_vec_def ev)
  then have z: "is_zero (Dot (fin_vec 0 0 1) (GetUnitVector ?B 3))"
    by simp
  have fh: "finite_vec (P1 hit0) \<and> finite_vec (P2 hit0)"
    by (simp add: hit0_def finite_vec_def fin_vec_def)
  show ?thesis
    using parallel_face_not_counted [OF sz z, of "fin_vec 0 0 (- 10)" 1 hit0] sz par z fh
    by simp
qed







section \<open>The angular distribution\<close>

text \<open>
  C8 fails on the code, by the defect of C4. A fresh object reads a file of the one point
  \<open>(10, 1)\<close>; the call returns false and leaves \<open>num_points = 1\<close>. The object then reads a
  file of the two points \<open>(0, 1)\<close> and \<open>(90, 1)\<close>: the call returns true with
  \<open>num_points = 3\<close>, the third cell of \<open>com_theta\<close> and of \<open>dsigma_domega\<close> is what the
  memory of the new arrays held, and the loop integrates over that cell as a third point.
  The state is not the one that the specification describes for the two points; with
  memory that holds zeros the reaction cross-section comes out as zero, whereas the
  trapezoidal rule on the two points gives a positive number.
\<close>

theorem file_call_after_failed_call:
  "fst (Initialize_file (AngularDist_new (Fin 0)) (Some one_point) (Fin 1) None zero_mem) = False \<and>
   fst (Initialize_file
          (snd (Initialize_file (AngularDist_new (Fin 0)) (Some one_point) (Fin 1) None zero_mem))
          (Some two_points) (Fin 1) None mem) = True \<and>
   num_points (snd (Initialize_file
          (snd (Initialize_file (AngularDist_new (Fin 0)) (Some one_point) (Fin 1) None zero_mem))
          (Some two_points) (Fin 1) None mem)) = 3 \<and>
   com_theta (snd (Initialize_file
          (snd (Initialize_file (AngularDist_new (Fin 0)) (Some one_point) (Fin 1) None zero_mem))
          (Some two_points) (Fin 1) None mem)) = [Fin 0 * deg2rad, Fin 90 * deg2rad, mem 0 2] \<and>
   dsigma_domega (snd (Initialize_file
          (snd (Initialize_file (AngularDist_new (Fin 0)) (Some one_point) (Fin 1) None zero_mem))
          (Some two_points) (Fin 1) None mem)) = [Fin 1, Fin 1, mem 1 2] \<and>
   \<not> tabulated_state (snd (Initialize_file
          (snd (Initialize_file (AngularDist_new (Fin 0)) (Some one_point) (Fin 1) None zero_mem))
          (Some two_points) (Fin 1) None mem)) 2 (column_x two_points) (column_y two_points) \<and>
   reaction_xsection (snd (Initialize_file
          (snd (Initialize_file (AngularDist_new (Fin 0)) (Some one_point) (Fin 1) None zero_mem))
          (Some two_points) (Fin 1) None zero_mem)) = Fin 0 \<and>
   trapezoid_sum (\<lambda>j. column_x two_points j * deg2rad) (column_y two_points) (2 - 1) \<noteq> Fin 0"
proof -
  obtain x where x: "0 < x"
    "trapezoid_sum (\<lambda>j. column_x two_points j * deg2rad) (column_y two_points) (2 - 1) = Fin x"
    using two_points_xsection by blast
  have a1: "snd (Initialize_file (AngularDist_new (Fin 0)) (Some one_point) (Fin 1) None zero_mem) =
      (AngularDist_new (Fin 0))\<lparr>num_points := 1\<rparr>"
    by (simp add: failed_one_point)
  have f1: "fst (Initialize_file (AngularDist_new (Fin 0)) (Some one_point) (Fin 1) None zero_mem) =
      False"
    by (simp add: failed_one_point)
  show ?thesis
    unfolding a1 f1 second_file_call x(2)
    using x(1) zero_memory_xsection by (simp add: tabulated_state_def)
qed

text \<open>
  C9. On an object that was constructed and on which every call of \<open>Initialize\<close> so far has
  returned false, \<open>Sample\<close> returns \<open>-1\<close> and draws no random number, whatever the generator.
\<close>

theorem Sample_uninitialized:
  assumes "after_failed (AngularDist_new r) cs = Some a"
  shows "Sample a rng = (Fin (- 1), rng)"
proof -
  have "init a = init (AngularDist_new r)"
    by (rule after_failed_init [OF assms])
  then have "\<not> init a"
    by (simp add: AngularDist_new_def)
  then show ?thesis
    by (simp add: Sample_def)
qed

theorem Sample_uninitialized_witness:
  "after_failed (AngularDist_new (Fin 0))
     [(FromFile None (Fin 0) None, zero_mem), (FromFile (Some one_point) (Fin 0) None, zero_mem),
      (Isotropic (Fin (- 1)), zero_mem)] =
     Some ((AngularDist_new (Fin 0))\<lparr>num_points := 1\<rparr>) \<and>
   Sample ((AngularDist_new (Fin 0))\<lparr>num_points := 1\<rparr>) half_rng = (Fin (- 1), half_rng)"
proof -
  have f: "after_failed (AngularDist_new (Fin 0))
     [(FromFile None (Fin 0) None, zero_mem), (FromFile (Some one_point) (Fin 0) None, zero_mem),
      (Isotropic (Fin (- 1)), zero_mem)] =
     Some ((AngularDist_new (Fin 0))\<lparr>num_points := 1\<rparr>)"
    by (simp add: Initialize_file_def Initialize_isotropic_def AngularDist_new_def one_point_def)
  show ?thesis
    using Sample_uninitialized [OF f, of half_rng] f by simp
qed

text \<open>
  C5. After a call of \<open>Initialize\<close> that returned true, on an \<open>AngularDist\<close> through any of
  the three overloads or on a \<open>RegularPolygon\<close>, every further call returns false and leaves
  the whole state as it is.
\<close>

theorem initialized_rejects_Initialize:
  "(fst (Initialize a c1 mem1) \<longrightarrow>
      Initialize (snd (Initialize a c1 mem1)) c2 mem2 = (False, snd (Initialize a c1 mem1))) \<and>
   (fst (RegularPolygon_Initialize poly r1 n1 l1) \<longrightarrow>
      RegularPolygon_Initialize (snd (RegularPolygon_Initialize poly r1 n1 l1)) r2 n2 l2 =
        (False, snd (RegularPolygon_Initialize poly r1 n1 l1)))"
proof (intro conjI impI)
  assume "fst (Initialize a c1 mem1)"
  then have "init (snd (Initialize a c1 mem1))"
    by (rule Initialize_success_init)
  then show "Initialize (snd (Initialize a c1 mem1)) c2 mem2 = (False, snd (Initialize a c1 mem1))"
    by (rule Initialize_when_init)
next
  assume "fst (RegularPolygon_Initialize poly r1 n1 l1)"
  then have "init_poly (snd (RegularPolygon_Initialize poly r1 n1 l1))"
    by (auto simp: RegularPolygon_Initialize_def Let_def split: if_splits prod.splits)
  then show "RegularPolygon_Initialize (snd (RegularPolygon_Initialize poly r1 n1 l1)) r2 n2 l2 =
        (False, snd (RegularPolygon_Initialize poly r1 n1 l1))"
    by (simp add: RegularPolygon_Initialize_def)
qed

theorem initialized_rejects_Initialize_witness:
  "fst (Initialize (AngularDist_new (Fin 0)) (Isotropic (Fin 1)) zero_mem) \<and>
   Initialize (snd (Initialize (AngularDist_new (Fin 0)) (Isotropic (Fin 1)) zero_mem))
     (FromFile (Some two_points) (Fin 1) None) zero_mem =
     (False, snd (Initialize (AngularDist_new (Fin 0)) (Isotropic (Fin 1)) zero_mem)) \<and>
   fst (RegularPolygon_Initialize RegularPolygon_new (Fin 1) 3 Line_new) \<and>
   RegularPolygon_Initialize (snd (RegularPolygon_Initialize RegularPolygon_new (Fin 1) 3 Line_new))
     (Fin 2) 4 Line_new =
     (False, snd (RegularPolygon_Initialize RegularPolygon_new (Fin 1) 3 Line_new))"
proof -
  have a: "fst (Initialize (AngularDist_new (Fin 0)) (Isotropic (Fin 1)) zero_mem)"
    by (simp add: Initialize_isotropic_def AngularDist_new_def)
  have b: "fst (RegularPolygon_Initialize RegularPolygon_new (Fin 1) 3 Line_new)"
    by (simp add: RegularPolygon_Initialize_def RegularPolygon_new_def Let_def split: prod.splits)
  show ?thesis
    using initialized_rejects_Initialize [of "AngularDist_new (Fin 0)" "Isotropic (Fin 1)" zero_mem
        "FromFile (Some two_points) (Fin 1) None" zero_mem RegularPolygon_new "Fin 1" 3 Line_new
        "Fin 2" 4 Line_new] a b
    by simp
qed

text \<open>
  C4 fails on the code. The file overload counts the points in the member \<open>num_points\<close>
  itself: a call on a fresh object with a file of one point returns false and leaves
  \<open>num_points = 1\<close>. The same call made a second time then counts up to two and returns
  true, with arrays of two cells filled from a single point.
\<close>

theorem failed_file_call_keeps_count:
  "Initialize_file (AngularDist_new (Fin 0)) (Some one_point) (Fin 0) None zero_mem =
     (False, (AngularDist_new (Fin 0))\<lparr>num_points := 1\<rparr>) \<and>
   (AngularDist_new (Fin 0))\<lparr>num_points := 1\<rparr> \<noteq> AngularDist_new (Fin 0) \<and>
   fst (Initialize_file (AngularDist_new (Fin 0)) (Some one_point) (Fin 0) None zero_mem) = False \<and>
   fst (Initialize_file
          (snd (Initialize_file (AngularDist_new (Fin 0)) (Some one_point) (Fin 0) None zero_mem))
          (Some one_point) (Fin 0) None zero_mem) = True \<and>
   num_points (snd (Initialize_file
          (snd (Initialize_file (AngularDist_new (Fin 0)) (Some one_point) (Fin 0) None zero_mem))
          (Some one_point) (Fin 0) None zero_mem)) = 2"
proof -
  have 1: "Initialize_file (AngularDist_new (Fin 0)) (Some one_point) (Fin 0) None zero_mem =
     (False, (AngularDist_new (Fin 0))\<lparr>num_points := 1\<rparr>)"
    by (simp add: Initialize_file_def AngularDist_new_def one_point_def)
  have 2: "(AngularDist_new (Fin 0))\<lparr>num_points := 1\<rparr> \<noteq> AngularDist_new (Fin 0)"
    by (simp add: AngularDist_new_def)
  have 3: "fst (Initialize_file ((AngularDist_new (Fin 0))\<lparr>num_points := 1\<rparr>)
          (Some one_point) (Fin 0) None zero_mem) = True"
    "num_points (snd (Initialize_file ((AngularDist_new (Fin 0))\<lparr>num_points := 1\<rparr>)
          (Some one_point) (Fin 0) None zero_mem)) = 2"
    by (simp_all add: Initialize_file_def AngularDist_new_def one_point_def Let_def split: prod.splits)
  show ?thesis
    using 2 3 by (simp add: 1)
qed

text \<open>
  C10 fails on the code. On a fresh object, for the two points \<open>(0, 1)\<close> and \<open>(90, 1)\<close>, a
  beam intensity of one and a target of number density one, the two overloads give the
  same arrays and the same reaction cross-section, but not the same rate: the file overload
  multiplies by \<open>1E-27\<close> and the array overload does not.
\<close>

theorem overloads_differ_in_rate:
  "com_theta (snd (Initialize_file (AngularDist_new (Fin 0)) (Some two_points) (Fin 1)
                     (Some (Fin 1)) zero_mem)) =
   com_theta (snd (Initialize_arrays (AngularDist_new (Fin 0)) 2 (column_x two_points)
                     (column_y two_points) (Fin 1) (Some (Fin 1)) zero_mem)) \<and>
   dsigma_domega (snd (Initialize_file (AngularDist_new (Fin 0)) (Some two_points) (Fin 1)
                     (Some (Fin 1)) zero_mem)) =
   dsigma_domega (snd (Initialize_arrays (AngularDist_new (Fin 0)) 2 (column_x two_points)
                     (column_y two_points) (Fin 1) (Some (Fin 1)) zero_mem)) \<and>
   integral (snd (Initialize_file (AngularDist_new (Fin 0)) (Some two_points) (Fin 1)
                     (Some (Fin 1)) zero_mem)) =
   integral (snd (Initialize_arrays (AngularDist_new (Fin 0)) 2 (column_x two_points)
                     (column_y two_points) (Fin 1) (Some (Fin 1)) zero_mem)) \<and>
   reaction_xsection (snd (Initialize_file (AngularDist_new (Fin 0)) (Some two_points) (Fin 1)
                     (Some (Fin 1)) zero_mem)) =
   reaction_xsection (snd (Initialize_arrays (AngularDist_new (Fin 0)) 2 (column_x two_points)
                     (column_y two_points) (Fin 1) (Some (Fin 1)) zero_mem)) \<and>
   rate (snd (Initialize_file (AngularDist_new (Fin 0)) (Some two_points) (Fin 1) (Some (Fin 1))
                zero_mem)) \<noteq>
   rate (snd (Initialize_arrays (AngularDist_new (Fin 0)) 2 (column_x two_points)
                (column_y two_points) (Fin 1) (Some (Fin 1)) zero_mem))"
proof -
  have h: "\<not> init (AngularDist_new (Fin 0))" "num_points (AngularDist_new (Fin 0)) = 0"
    "length two_points = 2" "(2::nat) \<le> 2"
    by (simp_all add: AngularDist_new_def two_points_def)
  obtain x where x: "0 < x"
    "trapezoid_sum (\<lambda>j. column_x two_points j * deg2rad) (column_y two_points) (2 - 1) = Fin x"
    using two_points_xsection by blast
  show ?thesis
    unfolding Initialize_file_result [OF h(1) h(2) h(3) h(4)]
      Initialize_arrays_result [OF h(1) h(4)] x(2)
    using x(1) by simp
qed

end
